theory Spec2Isabelle
  imports Complex_Main "HOL-Library.Sublist"
begin

section \<open>Price aggregation service: data model\<close>

text \<open>
  The embedding follows \<^verbatim>\<open>price-aggregation-service.js\<close> (class
  \<^verbatim>\<open>PriceAggregationService\<close>). Numbers are modelled as exact reals: the
  rounding of IEEE doubles and of decimal.js (20 significant digits) is not part of the
  model, so \<^verbatim>\<open>toNumber()\<close> and \<^verbatim>\<open>new Decimal(x)\<close> are the identity on
  finite numbers. The values that are not finite numbers (NaN, the infinities) are
  written out where the code can produce them. Every read of \<^verbatim>\<open>Date.now()\<close>
  inside one call returns the same instant \<open>now\<close>, which the caller of the model
  supplies. Logging is not modelled.
\<close>

subsection \<open>JavaScript values that reach the service\<close>

text \<open>
  A field of the raw \<^verbatim>\<open>priceData\<close> object, as far as the code distinguishes:
  \<open>Undefined\<close> stands for every falsy value that is not a number (a missing field,
  null, the empty string, NaN), \<open>Num r\<close> for a finite number, \<open>NumericStr r\<close> for a
  non-empty string that decimal.js parses to \<open>r\<close>, and \<open>NonNumeric\<close> for a truthy
  value that the \<^verbatim>\<open>Decimal\<close> constructor rejects (a non-numeric string, an object).
\<close>

datatype jsval = Undefined | Num real | NumericStr real | NonNumeric

fun truthy :: "jsval \<Rightarrow> bool" where
  "truthy Undefined = False"
| "truthy (Num r) = (r \<noteq> 0)"
| "truthy (NumericStr r) = True"
| "truthy NonNumeric = True"

text \<open>A number that may fail to be finite: the result of a double or Decimal operation.\<close>

datatype jsnum = Val real | NaN | PosInfinity | NegInfinity

datatype error =
    DecimalError
  | NoVolumeData
  | NoPriceData
  | InsufficientData nat
  | AllOutliers
  | ZeroVolume
  | ZeroWeight
  | TypeError

text \<open>\<^verbatim>\<open>new Decimal(v)\<close>: throws on anything that is not numeric.\<close>

fun new_Decimal :: "jsval \<Rightarrow> error + real" where
  "new_Decimal (Num r) = Inr r"
| "new_Decimal (NumericStr r) = Inr r"
| "new_Decimal Undefined = Inl DecimalError"
| "new_Decimal NonNumeric = Inl DecimalError"

subsection \<open>Records\<close>

text \<open>The raw observation handed to \<^verbatim>\<open>addPriceData\<close>.\<close>

record priceData =
  price_in :: jsval
  volume_in :: jsval
  timestamp_in :: "real option"
  source_in :: "string option"

text \<open>
  An element of a history array. The entries of \<^verbatim>\<open>priceHistory\<close> are normalized
  observations (volume may be null, weight is set); the entries of
  \<^verbatim>\<open>volumeHistory\<close> are the objects \<^verbatim>\<open>{volume, price, timestamp, source}\<close>,
  which have no \<^verbatim>\<open>weight\<close> property: reading it gives undefined, here \<open>None\<close>.
  The metadata bag is carried by the code but never read, and is left out.
\<close>

record datapoint =
  price :: real
  volume :: "real option"
  timestamp :: real
  source :: string
  weight :: "real option"

record config =
  zScoreThreshold :: real
  iqrMultiplier :: real
  minDataPoints :: nat
  maxAge :: real
  twapWindow :: real
  twapInterval :: real
  vwapWindow :: real
  minVolume :: real
  maxHistorySize :: nat

record stats =
  totalPricesProcessed :: nat
  outliersDetected :: nat
  vwapCalculations :: nat
  twapCalculations :: nat
  lastUpdate :: "real option"

record service =
  config :: config
  priceHistory :: "string \<rightharpoonup> datapoint list"
  volumeHistory :: "string \<rightharpoonup> datapoint list"
  sourceWeights :: "string \<rightharpoonup> real"
  stats :: stats

subsection \<open>Constructor\<close>

text \<open>\<^verbatim>\<open>config.x || d\<close>: a missing or zero setting takes the default.\<close>

definition or_default :: "'a::zero option \<Rightarrow> 'a \<Rightarrow> 'a" where
  "or_default x d = (case x of None \<Rightarrow> d | Some v \<Rightarrow> if v = 0 then d else v)"

record config_in =
  zScoreThreshold_in :: "real option"
  iqrMultiplier_in :: "real option"
  minDataPoints_in :: "nat option"
  maxAge_in :: "real option"
  twapWindow_in :: "real option"
  twapInterval_in :: "real option"
  vwapWindow_in :: "real option"
  minVolume_in :: "real option"
  maxHistorySize_in :: "nat option"

definition no_config :: config_in where
  "no_config = \<lparr> zScoreThreshold_in = None, iqrMultiplier_in = None, minDataPoints_in = None,
     maxAge_in = None, twapWindow_in = None, twapInterval_in = None, vwapWindow_in = None,
     minVolume_in = None, maxHistorySize_in = None \<rparr>"

definition initializeSourceWeights :: "string \<rightharpoonup> real" where
  "initializeSourceWeights =
     [''okx'' \<mapsto> 1, ''raydium'' \<mapsto> 0.8, ''orca'' \<mapsto> 0.8, ''binance'' \<mapsto> 1, ''coinbase'' \<mapsto> 0.9]"

definition initial_stats :: stats where
  "initial_stats = \<lparr> totalPricesProcessed = 0, outliersDetected = 0, vwapCalculations = 0,
     twapCalculations = 0, lastUpdate = None \<rparr>"

definition constructor :: "config_in \<Rightarrow> service" where
  "constructor c =
     \<lparr> config = \<lparr> zScoreThreshold = or_default (zScoreThreshold_in c) 2.5,
                   iqrMultiplier = or_default (iqrMultiplier_in c) 1.5,
                   minDataPoints = or_default (minDataPoints_in c) 3,
                   maxAge = or_default (maxAge_in c) 300000,
                   twapWindow = or_default (twapWindow_in c) 3600000,
                   twapInterval = or_default (twapInterval_in c) 60000,
                   vwapWindow = or_default (vwapWindow_in c) 3600000,
                   minVolume = or_default (minVolume_in c) 0.01,
                   maxHistorySize = or_default (maxHistorySize_in c) 1000 \<rparr>,
       priceHistory = Map.empty,
       volumeHistory = Map.empty,
       sourceWeights = initializeSourceWeights,
       stats = initial_stats \<rparr>"

section \<open>Observation store\<close>

text \<open>
  \<^verbatim>\<open>normalizePriceData\<close>. The weight is looked up under the raw source, and a missing
  or zero weight becomes 0.5.
\<close>

definition normalizePriceData :: "service \<Rightarrow> real \<Rightarrow> priceData \<Rightarrow> error + datapoint" where
  "normalizePriceData s now pd =
     (case new_Decimal (if truthy (price_in pd) then price_in pd else Num 0) of
        Inl e \<Rightarrow> Inl e
      | Inr p \<Rightarrow>
         (case (if truthy (volume_in pd)
                then (case new_Decimal (volume_in pd) of Inl e \<Rightarrow> Inl e | Inr v \<Rightarrow> Inr (Some v))
                else Inr None) of
            Inl e \<Rightarrow> Inl e
          | Inr v \<Rightarrow>
             Inr \<lparr> price = p,
                   volume = v,
                   timestamp = or_default (timestamp_in pd) now,
                   source = (case source_in pd of None \<Rightarrow> ''unknown''
                             | Some n \<Rightarrow> if n = [] then ''unknown'' else n),
                   weight = Some (or_default
                              (case source_in pd of None \<Rightarrow> None | Some n \<Rightarrow> sourceWeights s n)
                              0.5) \<rparr>))"

text \<open>
  The cleaning of one history array in \<^verbatim>\<open>cleanupOldData\<close>: the age filter, then
  \<^verbatim>\<open>splice(0, length - maxSize)\<close> when the array is longer than the cap.
\<close>

definition cleanup_array :: "config \<Rightarrow> real \<Rightarrow> datapoint list \<Rightarrow> datapoint list" where
  "cleanup_array c now history =
     (let filtered = filter (\<lambda>d. now - timestamp d \<le> maxAge c) history
      in if length filtered > maxHistorySize c
         then drop (length filtered - maxHistorySize c) filtered
         else filtered)"

definition cleanupOldData :: "real \<Rightarrow> string \<Rightarrow> service \<Rightarrow> service" where
  "cleanupOldData now token s =
     (let s1 = (case priceHistory s token of
                  None \<Rightarrow> s
                | Some history \<Rightarrow>
                    s\<lparr>priceHistory := (priceHistory s)(token \<mapsto> cleanup_array (config s) now history)\<rparr>)
      in case volumeHistory s1 token of
           None \<Rightarrow> s1
         | Some vh \<Rightarrow>
             s1\<lparr>volumeHistory := (volumeHistory s1)(token \<mapsto> cleanup_array (config s1) now vh)\<rparr>)"

text \<open>
  The body of the \<^verbatim>\<open>try\<close> block of \<^verbatim>\<open>addPriceData\<close>. An exception
  leaves the service as it is at the throw, so the error branch carries that state. The
  normalization comes first. The arrays are mutated in place; a \<^verbatim>\<open>push\<close> on
  an array that \<^verbatim>\<open>get\<close> did not find (possible only when the two maps disagree
  on the key) throws a \<open>TypeError\<close>.
\<close>

definition volume_entry :: "datapoint \<Rightarrow> datapoint" where
  "volume_entry d = \<lparr> price = price d, volume = volume d, timestamp = timestamp d,
                       source = source d, weight = None \<rparr>"

definition addPriceData_try ::
  "real \<Rightarrow> string \<Rightarrow> priceData \<Rightarrow> service \<Rightarrow> (error \<times> service) + service" where
  "addPriceData_try now token pd s =
     (case normalizePriceData s now pd of
        Inl e \<Rightarrow> Inl (e, s)
      | Inr normalizedData \<Rightarrow>
         (let s1 = (if priceHistory s token = None
                    then s\<lparr>priceHistory := (priceHistory s)(token \<mapsto> []),
                           volumeHistory := (volumeHistory s)(token \<mapsto> [])\<rparr>
                    else s)
          in case priceHistory s1 token of
               None \<Rightarrow> Inl (TypeError, s1)
             | Some history \<Rightarrow>
                (let s2 = s1\<lparr>priceHistory := (priceHistory s1)(token \<mapsto> history @ [normalizedData])\<rparr>;
                     pushed =
                       (if volume normalizedData \<noteq> None
                        then (case volumeHistory s2 token of
                                None \<Rightarrow> Inl (TypeError, s2)
                              | Some vh \<Rightarrow>
                                  Inr (s2\<lparr>volumeHistory :=
                                          (volumeHistory s2)(token \<mapsto> vh @ [volume_entry normalizedData])\<rparr>))
                        else Inr s2)
                 in case pushed of
                      Inl f \<Rightarrow> Inl f
                    | Inr s3 \<Rightarrow>
                       (let s4 = cleanupOldData now token s3
                        in Inr (s4\<lparr>stats := (stats s4)
                                   \<lparr>totalPricesProcessed := Suc (totalPricesProcessed (stats s4)),
                                    lastUpdate := Some now\<rparr>\<rparr>)))))"

text \<open>\<^verbatim>\<open>addPriceData\<close>: the \<^verbatim>\<open>catch\<close> logs the error and returns.\<close>

definition addPriceData :: "real \<Rightarrow> string \<Rightarrow> priceData \<Rightarrow> service \<Rightarrow> service" where
  "addPriceData now token pd s =
     (case addPriceData_try now token pd s of Inl (e, s') \<Rightarrow> s' | Inr s' \<Rightarrow> s')"

definition clearTokenData :: "string \<Rightarrow> service \<Rightarrow> service" where
  "clearTokenData token s =
     s\<lparr>priceHistory := (priceHistory s)(token := None),
       volumeHistory := (volumeHistory s)(token := None)\<rparr>"

section \<open>Statistics kernel\<close>

text \<open>
  Modelled from the spec: the functions \<^verbatim>\<open>mean\<close>, \<^verbatim>\<open>standardDeviation\<close> and
  \<^verbatim>\<open>quantile\<close> are imported from the package simple-statistics, whose source is not
  part of the repository. The spec gives them as the arithmetic mean (undefined on the
  empty list, which no caller passes), the population standard deviation, and the
  quantile as "sorted-copy then linear interpolation between order statistics", taken
  here at the position \<open>(n - 1) * q\<close> of the sorted copy.
\<close>

definition mean :: "real list \<Rightarrow> real" where
  "mean xs = sum_list xs / real (length xs)"

definition variance :: "real list \<Rightarrow> real" where
  "variance xs = sum_list (map (\<lambda>x. (x - mean xs)\<^sup>2) xs) / real (length xs)"

definition standardDeviation :: "real list \<Rightarrow> real" where
  "standardDeviation xs = sqrt (variance xs)"

definition quantile :: "real list \<Rightarrow> real \<Rightarrow> real" where
  "quantile xs q =
     (let sorted = sort xs;
          h = real (length sorted - 1) * q;
          lo = nat \<lfloor>h\<rfloor>;
          hi = min (Suc lo) (length sorted - 1)
      in sorted ! lo + (h - real lo) * (sorted ! hi - sorted ! lo))"

section \<open>Outlier filters\<close>

text \<open>
  \<^verbatim>\<open>removeOutliersZScore(data, values)\<close>. The filter reads \<^verbatim>\<open>values[index]\<close>
  for each element of \<^verbatim>\<open>data\<close>; an element without a value has a NaN score and is
  dropped, which is what \<open>zip\<close> does.
\<close>

definition removeOutliersZScore :: "config \<Rightarrow> datapoint list \<Rightarrow> real list \<Rightarrow> datapoint list" where
  "removeOutliersZScore c data values =
     (if length values < 3 then data
      else let meanValue = mean values;
               stdDev = standardDeviation values
           in if stdDev = 0 then data
              else map fst (filter (\<lambda>(d, v). \<bar>(v - meanValue) / stdDev\<bar> \<le> zScoreThreshold c)
                                   (zip data values)))"

text \<open>\<^verbatim>\<open>removeOutliersIQR(data, field)\<close>; every caller passes the field \<^verbatim>\<open>'price'\<close>.\<close>

definition removeOutliersIQR :: "config \<Rightarrow> datapoint list \<Rightarrow> datapoint list" where
  "removeOutliersIQR c data =
     (if length data < 4 then data
      else let values = sort (map price data);
               q1 = quantile values 0.25;
               q3 = quantile values 0.75;
               iqr = q3 - q1;
               lowerBound = q1 - iqrMultiplier c * iqr;
               upperBound = q3 + iqrMultiplier c * iqr
           in filter (\<lambda>d. price d \<ge> lowerBound \<and> price d \<le> upperBound) data)"

text \<open>\<^verbatim>\<open>removeOutliers(data, 'price')\<close>: returns the survivors and counts the removed.\<close>

definition removeOutliers :: "datapoint list \<Rightarrow> service \<Rightarrow> datapoint list \<times> service" where
  "removeOutliers data s =
     (if length data < minDataPoints (config s) then (data, s)
      else let values = map price data;
               zScoreFiltered = removeOutliersZScore (config s) data values;
               iqrFiltered = removeOutliersIQR (config s) zScoreFiltered;
               outliersRemoved = length data - length iqrFiltered
           in (iqrFiltered,
               if outliersRemoved > 0
               then s\<lparr>stats := (stats s)\<lparr>outliersDetected := outliersDetected (stats s) + outliersRemoved\<rparr>\<rparr>
               else s))"

section \<open>Confidence\<close>

definition calculateStandardDeviation :: "real list \<Rightarrow> real" where
  "calculateStandardDeviation values = (if length values < 2 then 0 else standardDeviation values)"

text \<open>\<^verbatim>\<open>[...new Set(xs)]\<close>: the distinct elements in the order of their first occurrence.\<close>

definition distinct_values :: "'a list \<Rightarrow> 'a list" where
  "distinct_values xs = rev (remdups (rev xs))"

text \<open>
  \<^verbatim>\<open>mean(data.map(d => d.weight))\<close>: the sum of an array that holds an undefined is
  NaN, and so is the mean.
\<close>

definition mean_weights :: "real option list \<Rightarrow> jsnum" where
  "mean_weights ws = (case those ws of None \<Rightarrow> NaN | Some vs \<Rightarrow> Val (mean vs))"

definition calculateConfidence :: "datapoint list \<Rightarrow> jsnum" where
  "calculateConfidence data =
     (if data = [] then Val 0
      else let dataPointsFactor = min (real (length data) / 10) 1;
               sourcesFactor = min (real (length (distinct_values (map source data))) / 3) 1;
               prices = map price data;
               priceStdDev = calculateStandardDeviation prices;
               avgPrice = mean prices;
               consistencyFactor = (if avgPrice > 0 then max 0 (1 - priceStdDev / avgPrice) else 0)
           in case mean_weights (map weight data) of
                Val avgWeight \<Rightarrow>
                  Val (max 0 (min 1 (dataPointsFactor * 0.3 + sourcesFactor * 0.3
                                       + consistencyFactor * 0.3 + avgWeight * 0.1)))
              | _ \<Rightarrow> NaN)"

section \<open>Aggregation\<close>

record result_common =
  dataPoints :: nat
  outliers :: nat
  timeWindow :: real
  calculatedAt :: real
  sources :: "string list"
  confidence :: jsnum
  minPrice :: real
  maxPrice :: real

record vwap_result = result_common +
  vwap :: real
  totalVolume :: real
  avgVolume :: real

record twap_result = result_common +
  twap :: real
  priceStdDev :: real
  timeSpread :: real

record weighted_result =
  weightedPrice :: jsnum
  weightedDataPoints :: nat
  weightedConfidence :: jsnum
  weightedAt :: real

subsection \<open>VWAP\<close>

text \<open>
  The summation loop of \<^verbatim>\<open>calculateVWAP\<close>, with the two running totals.
  \<^verbatim>\<open>data.price.mul(null)\<close> throws.
\<close>

fun vwap_loop :: "datapoint list \<Rightarrow> real \<Rightarrow> real \<Rightarrow> error + real \<times> real" where
  "vwap_loop [] sumVolumePrice sumVolume = Inr (sumVolumePrice, sumVolume)"
| "vwap_loop (d # ds) sumVolumePrice sumVolume =
     (case volume d of
        None \<Rightarrow> Inl DecimalError
      | Some v \<Rightarrow> vwap_loop ds (sumVolumePrice + price d * v) (sumVolume + v))"

definition vwap_relevantData :: "real \<Rightarrow> real \<Rightarrow> service \<Rightarrow> datapoint list \<Rightarrow> datapoint list" where
  "vwap_relevantData now windowMs s vh =
     filter (\<lambda>d. timestamp d \<ge> now - windowMs
                 \<and> (case volume d of None \<Rightarrow> False | Some v \<Rightarrow> v \<ge> minVolume (config s))) vh"

definition calculateVWAP ::
  "real \<Rightarrow> string \<Rightarrow> real option \<Rightarrow> service \<Rightarrow> (error + vwap_result) \<times> service" where
  "calculateVWAP now token window s =
     (let windowMs = or_default window (vwapWindow (config s))
      in case volumeHistory s token of
           None \<Rightarrow> (Inl NoVolumeData, s)
         | Some vh \<Rightarrow>
            if vh = [] then (Inl NoVolumeData, s)
            else let relevantData = vwap_relevantData now windowMs s vh
                 in if length relevantData < minDataPoints (config s)
                    then (Inl (InsufficientData (length relevantData)), s)
                    else let (cleanData, s1) = removeOutliers relevantData s
                         in if cleanData = [] then (Inl AllOutliers, s1)
                            else case vwap_loop cleanData 0 0 of
                                   Inl e \<Rightarrow> (Inl e, s1)
                                 | Inr (sumVolumePrice, sumVolume) \<Rightarrow>
                                    if sumVolume = 0 then (Inl ZeroVolume, s1)
                                    else (Inr \<lparr> dataPoints = length cleanData,
                                                outliers = length relevantData - length cleanData,
                                                timeWindow = windowMs,
                                                calculatedAt = now,
                                                sources = distinct_values (map source cleanData),
                                                confidence = calculateConfidence cleanData,
                                                minPrice = Min (set (map price cleanData)),
                                                maxPrice = Max (set (map price cleanData)),
                                                vwap = sumVolumePrice / sumVolume,
                                                totalVolume = sumVolume,
                                                avgVolume = sumVolume / real (length cleanData) \<rparr>,
                                          s1\<lparr>stats := (stats s1)
                                               \<lparr>vwapCalculations := Suc (vwapCalculations (stats s1))\<rparr>\<rparr>))"

subsection \<open>TWAP\<close>

text \<open>
  The loop of \<^verbatim>\<open>calculateTWAP\<close> over the index \<open>i\<close>, with the two running totals.
  \<^verbatim>\<open>new Decimal(undefined)\<close> throws.
\<close>

function twap_loop :: "real \<Rightarrow> datapoint list \<Rightarrow> nat \<Rightarrow> real \<Rightarrow> real \<Rightarrow> error + real \<times> real" where
  "twap_loop now cleanData i weightedSum totalWeight =
     (if i < length cleanData
      then let current = cleanData ! i;
               timeWeight = (if i = length cleanData - 1
                             then now - timestamp current
                             else timestamp (cleanData ! (i + 1)) - timestamp current)
           in case weight current of
                None \<Rightarrow> Inl DecimalError
              | Some sourceWeight \<Rightarrow>
                 (let finalWeight = timeWeight * sourceWeight
                  in twap_loop now cleanData (i + 1)
                       (weightedSum + price current * finalWeight) (totalWeight + finalWeight))
      else Inr (weightedSum, totalWeight))"
  by pat_completeness auto
termination
  by (relation "measure (\<lambda>(now, cleanData, i, ws, tw). length cleanData - i)") auto

declare twap_loop.simps [simp del]

definition twap_relevantData :: "real \<Rightarrow> real \<Rightarrow> datapoint list \<Rightarrow> datapoint list" where
  "twap_relevantData now windowMs history =
     sort_key timestamp (filter (\<lambda>d. timestamp d \<ge> now - windowMs) history)"

definition calculateTWAP ::
  "real \<Rightarrow> string \<Rightarrow> real option \<Rightarrow> service \<Rightarrow> (error + twap_result) \<times> service" where
  "calculateTWAP now token window s =
     (let windowMs = or_default window (twapWindow (config s))
      in case priceHistory s token of
           None \<Rightarrow> (Inl NoPriceData, s)
         | Some history \<Rightarrow>
            if history = [] then (Inl NoPriceData, s)
            else let relevantData = twap_relevantData now windowMs history
                 in if length relevantData < minDataPoints (config s)
                    then (Inl (InsufficientData (length relevantData)), s)
                    else let (cleanData, s1) = removeOutliers relevantData s
                         in if cleanData = [] then (Inl AllOutliers, s1)
                            else case twap_loop now cleanData 0 0 0 of
                                   Inl e \<Rightarrow> (Inl e, s1)
                                 | Inr (weightedSum, totalWeight) \<Rightarrow>
                                    if totalWeight = 0 then (Inl ZeroWeight, s1)
                                    else (Inr \<lparr> dataPoints = length cleanData,
                                                outliers = length relevantData - length cleanData,
                                                timeWindow = windowMs,
                                                calculatedAt = now,
                                                sources = distinct_values (map source cleanData),
                                                confidence = calculateConfidence cleanData,
                                                minPrice = Min (set (map price cleanData)),
                                                maxPrice = Max (set (map price cleanData)),
                                                twap = weightedSum / totalWeight,
                                                priceStdDev = calculateStandardDeviation (map price cleanData),
                                                timeSpread = timestamp (last cleanData) - timestamp (hd cleanData) \<rparr>,
                                          s1\<lparr>stats := (stats s1)
                                               \<lparr>twapCalculations := Suc (twapCalculations (stats s1))\<rparr>\<rparr>))"

subsection \<open>Source-weighted average\<close>

text \<open>Decimal division does not throw: a zero divisor gives NaN or an infinity.\<close>

definition decimal_div :: "real \<Rightarrow> real \<Rightarrow> jsnum" where
  "decimal_div a b =
     (if b \<noteq> 0 then Val (a / b)
      else if a = 0 then NaN
      else if a > 0 then PosInfinity else NegInfinity)"

fun weighted_loop :: "datapoint list \<Rightarrow> real \<Rightarrow> real \<Rightarrow> error + real \<times> real" where
  "weighted_loop [] weightedSum totalWeight = Inr (weightedSum, totalWeight)"
| "weighted_loop (d # ds) weightedSum totalWeight =
     (case weight d of
        None \<Rightarrow> Inl DecimalError
      | Some w \<Rightarrow> weighted_loop ds (weightedSum + price d * w) (totalWeight + w))"

definition calculateWeightedAverage ::
  "real \<Rightarrow> string \<Rightarrow> service \<Rightarrow> (error + weighted_result) \<times> service" where
  "calculateWeightedAverage now token s =
     (case priceHistory s token of
        None \<Rightarrow> (Inl NoPriceData, s)
      | Some history \<Rightarrow>
         if history = [] then (Inl NoPriceData, s)
         else let recentData = drop (length history - 10) history;
                  (cleanData, s1) = removeOutliers recentData s
              in if cleanData = [] then (Inl AllOutliers, s1)
                 else case weighted_loop cleanData 0 0 of
                        Inl e \<Rightarrow> (Inl e, s1)
                      | Inr (weightedSum, totalWeight) \<Rightarrow>
                          (Inr \<lparr> weightedPrice = decimal_div weightedSum totalWeight,
                                 weightedDataPoints = length cleanData,
                                 weightedConfidence = calculateConfidence cleanData,
                                 weightedAt = now \<rparr>, s1))"

section \<open>Vocabulary of the claims\<close>

text \<open>
  The stored sequences of a pair, empty when the pair has no entry: the spec's full-window
  snapshot and volume snapshot.
\<close>

definition history_of :: "service \<Rightarrow> string \<Rightarrow> datapoint list" where
  "history_of s token = (case priceHistory s token of None \<Rightarrow> [] | Some h \<Rightarrow> h)"

definition volumes_of :: "service \<Rightarrow> string \<Rightarrow> datapoint list" where
  "volumes_of s token = (case volumeHistory s token of None \<Rightarrow> [] | Some h \<Rightarrow> h)"

text \<open>
  The two maps are written together by every method of the class, so in every state the
  service reaches a pair has both arrays or neither.
\<close>

definition paired :: "service \<Rightarrow> string \<Rightarrow> bool" where
  "paired s token = (priceHistory s token = None \<longleftrightarrow> volumeHistory s token = None)"

text \<open>
  The TWAP weights as the spec words them: the time weight of an observation is the
  duration until the next one, and \<open>now - t\<close> for the last; the source weight is the
  weight attached at insertion; the combined weight is their product.
\<close>

definition spec_sourceWeight :: "datapoint \<Rightarrow> real" where
  "spec_sourceWeight d = (case weight d of Some w \<Rightarrow> w | None \<Rightarrow> 0)"

definition spec_timeWeight :: "real \<Rightarrow> datapoint list \<Rightarrow> nat \<Rightarrow> real" where
  "spec_timeWeight now ds i =
     (if Suc i < length ds then timestamp (ds ! Suc i) - timestamp (ds ! i)
      else now - timestamp (ds ! i))"

definition spec_combinedWeight :: "real \<Rightarrow> datapoint list \<Rightarrow> nat \<Rightarrow> real" where
  "spec_combinedWeight now ds i = spec_timeWeight now ds i * spec_sourceWeight (ds ! i)"

definition spec_twap :: "real \<Rightarrow> datapoint list \<Rightarrow> real" where
  "spec_twap now ds =
     (\<Sum>i<length ds. price (ds ! i) * spec_combinedWeight now ds i)
       / (\<Sum>i<length ds. spec_combinedWeight now ds i)"

text \<open>
  Inputs of the scenarios: an observation with a numeric price, an optional numeric
  volume, an optional timestamp and a source; and the insertion of a list of
  observations, each at its own instant.
\<close>

definition observation :: "real \<Rightarrow> real option \<Rightarrow> real option \<Rightarrow> string \<Rightarrow> priceData" where
  "observation p v t src =
     \<lparr> price_in = Num p,
       volume_in = (case v of None \<Rightarrow> Undefined | Some x \<Rightarrow> Num x),
       timestamp_in = t,
       source_in = Some src \<rparr>"

fun insert_each :: "string \<Rightarrow> (real \<times> priceData) list \<Rightarrow> service \<Rightarrow> service" where
  "insert_each token [] s = s"
| "insert_each token ((now, pd) # rest) s = insert_each token rest (addPriceData now token pd s)"

definition two_pairs :: service where
  "two_pairs =
     addPriceData 1000 ''ETH/USDT'' (observation 3000 (Some 5) None ''binance'')
       (addPriceData 1000 ''SOL/USDC'' (observation 177.5 (Some 1000) None ''okx'')
          (constructor no_config))"

definition unparseable :: priceData where
  "unparseable = \<lparr> price_in = NonNumeric, volume_in = Num 10, timestamp_in = None,
                    source_in = Some ''okx'' \<rparr>"

text \<open>Entries as the two arrays hold them.\<close>

definition volume_point :: "real \<Rightarrow> real \<Rightarrow> real \<Rightarrow> string \<Rightarrow> datapoint" where
  "volume_point p v t src =
     \<lparr> price = p, volume = Some v, timestamp = t, source = src, weight = None \<rparr>"

definition price_point :: "real \<Rightarrow> real option \<Rightarrow> real \<Rightarrow> string \<Rightarrow> real \<Rightarrow> datapoint" where
  "price_point p v t src w =
     \<lparr> price = p, volume = v, timestamp = t, source = src, weight = Some w \<rparr>"

text \<open>
  The basic VWAP scenario: five observations with volume for the pair SOL/USDC, without a
  timestamp of their own, inserted into a new service at the instants \<open>t1\<close> to \<open>t5\<close>.
\<close>

definition basic_vwap_observations :: "priceData list" where
  "basic_vwap_observations =
     [observation 177.50 (Some 1000) None ''okx'',
      observation 177.45 (Some 1500) None ''binance'',
      observation 177.55 (Some 800) None ''coinbase'',
      observation 177.48 (Some 1200) None ''kraken'',
      observation 177.52 (Some 900) None ''huobi'']"

definition basic_vwap_store :: "real \<Rightarrow> real \<Rightarrow> real \<Rightarrow> real \<Rightarrow> real \<Rightarrow> service" where
  "basic_vwap_store t1 t2 t3 t4 t5 =
     insert_each ''SOL/USDC'' (zip [t1, t2, t3, t4, t5] basic_vwap_observations)
       (constructor no_config)"

definition basic_entries :: "real \<Rightarrow> real \<Rightarrow> real \<Rightarrow> real \<Rightarrow> real \<Rightarrow> datapoint list" where
  "basic_entries t1 t2 t3 t4 t5 =
     [volume_point 177.50 1000 t1 ''okx'', volume_point 177.45 1500 t2 ''binance'',
      volume_point 177.55 800 t3 ''coinbase'', volume_point 177.48 1200 t4 ''kraken'',
      volume_point 177.52 900 t5 ''huobi'']"

text \<open>
  Single observations of the scenarios: one whose own timestamp is older than
  \<^verbatim>\<open>maxAge\<close> at the instant 500000 of its insertion, and one with a positive
  volume below the floor (from the volume-filtering test of the VWAP test suite).
\<close>

definition stale_observation :: priceData where
  "stale_observation = observation 177.5 (Some 1000) (Some 100000) ''okx''"

definition low_volume_observation :: priceData where
  "low_volume_observation = observation 177.5 (Some 0.001) None ''low_volume1''"

text \<open>
  The TWAP scenarios: five observations without volume for SOL/USDC from five sources,
  with the timestamps \<open>u1\<close> to \<open>u5\<close>, all inserted into a new service at the instant
  \<open>now\<close>; and the entries they leave in the price history.
\<close>

definition twap_observations :: "real \<Rightarrow> real \<Rightarrow> real \<Rightarrow> real \<Rightarrow> real \<Rightarrow> priceData list" where
  "twap_observations u1 u2 u3 u4 u5 =
     [observation 177.50 None (Some u1) ''okx'',
      observation 177.60 None (Some u2) ''binance'',
      observation 177.45 None (Some u3) ''coinbase'',
      observation 177.70 None (Some u4) ''kraken'',
      observation 177.55 None (Some u5) ''huobi'']"

definition twap_store :: "real \<Rightarrow> real \<Rightarrow> real \<Rightarrow> real \<Rightarrow> real \<Rightarrow> real \<Rightarrow> service" where
  "twap_store u1 u2 u3 u4 u5 now =
     insert_each ''SOL/USDC'' (map (Pair now) (twap_observations u1 u2 u3 u4 u5))
       (constructor no_config)"

definition twap_entries :: "real \<Rightarrow> real \<Rightarrow> real \<Rightarrow> real \<Rightarrow> real \<Rightarrow> datapoint list" where
  "twap_entries u1 u2 u3 u4 u5 =
     [price_point 177.50 None u1 ''okx'' 1, price_point 177.60 None u2 ''binance'' 1,
      price_point 177.45 None u3 ''coinbase'' 0.9, price_point 177.70 None u4 ''kraken'' 0.5,
      price_point 177.55 None u5 ''huobi'' 0.5]"

text \<open>
  Inputs for the outlier filters: observations that differ in their price only.
\<close>

definition flat_point :: "real \<Rightarrow> datapoint" where
  "flat_point p = price_point p None 1000 ''okx'' 1"

definition zscore_example :: "datapoint list" where
  "zscore_example = map flat_point [100, 100, 100, 100, 100, 100, 100, 100, 100, 100, 101, 1100]"

definition iqr_example :: "datapoint list" where
  "iqr_example = map flat_point [100, 100, 100, 100, 101, 104]"

text \<open>
  The confidence as the spec words it, over the surviving observations, clamped to the
  interval from 0 to 1.
\<close>

definition spec_confidence :: "datapoint list \<Rightarrow> real" where
  "spec_confidence data =
     (let n = real (length data);
          sourceCount = real (card (set (map source data)));
          priceStddev = standardDeviation (map price data);
          priceMean = mean (map price data);
          meanSourceWeight = mean (map spec_sourceWeight data)
      in max 0 (min 1 (0.30 * min (n / 10) 1
                       + 0.30 * min (sourceCount / 3) 1
                       + 0.30 * max 0 (1 - priceStddev / priceMean)
                       + 0.10 * meanSourceWeight)))"

text \<open>The volume of an entry of the volume sequence, as the spec's sums read it.\<close>

definition spec_volume :: "datapoint \<Rightarrow> real" where
  "spec_volume d = (case volume d of Some v \<Rightarrow> v | None \<Rightarrow> 0)"

text \<open>
  The volume-filtering scenario of the VWAP test suite: five observations, two of them
  with a positive volume below the floor, all inserted at the instant 1000; and the
  entries of the volume sequence that pass the floor.
\<close>

definition volume_filter_observations :: "priceData list" where
  "volume_filter_observations =
     [observation 177.50 (Some 0.001) None ''low_volume1'',
      observation 177.45 (Some 1500) None ''binance'',
      observation 177.55 (Some 0.005) None ''low_volume2'',
      observation 177.48 (Some 1200) None ''kraken'',
      observation 177.52 (Some 900) None ''huobi'']"

definition volume_filter_store :: service where
  "volume_filter_store =
     insert_each ''SOL/USDC'' (map (Pair 1000) volume_filter_observations) (constructor no_config)"

definition volume_filter_kept :: "datapoint list" where
  "volume_filter_kept =
     [volume_point 177.45 1500 1000 ''binance'', volume_point 177.48 1200 1000 ''kraken'',
      volume_point 177.52 900 1000 ''huobi'']"

text \<open>
  What \<^verbatim>\<open>calculateTWAP\<close> and \<^verbatim>\<open>calculateWeightedAverage\<close> read of a pair:
  the observations of the window in timestamp order (the local \<^verbatim>\<open>relevantData\<close>),
  and the last ten observations (the local \<^verbatim>\<open>recentData\<close>).
\<close>

definition twap_snapshot :: "real \<Rightarrow> real option \<Rightarrow> service \<Rightarrow> string \<Rightarrow> datapoint list" where
  "twap_snapshot now window s token =
     twap_relevantData now (or_default window (twapWindow (config s))) (history_of s token)"

definition recent_snapshot :: "service \<Rightarrow> string \<Rightarrow> datapoint list" where
  "recent_snapshot s token = drop (length (history_of s token) - 10) (history_of s token)"

text \<open>
  The zero-volume scenario of the VWAP test suite: observations with volume 0 from the
  sources test1, test2 and test3, inserted at the instants 1000, 1100 and 1200, the third
  one on its own; the entries they leave in the price history; and an observation whose
  volume 0 comes as the string \<^verbatim>\<open>'0'\<close>.
\<close>

definition zero_volume_store :: service where
  "zero_volume_store =
     insert_each ''ZERO/VOLUME''
       [(1000, observation 100 (Some 0) None ''test1''),
        (1100, observation 101 (Some 0) None ''test2'')]
       (constructor no_config)"

definition third_zero_volume :: priceData where
  "third_zero_volume = observation 102 (Some 0) None ''test3''"

definition zero_volume_entries :: "datapoint list" where
  "zero_volume_entries =
     [price_point 100 None 1000 ''test1'' 0.5, price_point 101 None 1100 ''test2'' 0.5,
      price_point 102 None 1200 ''test3'' 0.5]"

definition string_zero_observation :: priceData where
  "string_zero_observation =
     \<lparr> price_in = Num 100, volume_in = NumericStr 0, timestamp_in = None,
       source_in = Some ''test1'' \<rparr>"

section \<open>Store lemmas\<close>

lemma addPriceData_try_ok:
  assumes n: "normalizePriceData s now pd = Inr nd" and p: "paired s token"
  shows "addPriceData_try now token pd s =
     Inr (s\<lparr>priceHistory := (priceHistory s)
               (token \<mapsto> cleanup_array (config s) now (history_of s token @ [nd])),
            volumeHistory := (volumeHistory s)
               (token \<mapsto> cleanup_array (config s) now
                  (if volume nd \<noteq> None then volumes_of s token @ [volume_entry nd]
                   else volumes_of s token)),
            stats := (stats s)\<lparr>totalPricesProcessed := Suc (totalPricesProcessed (stats s)),
                               lastUpdate := Some now\<rparr>\<rparr>)"
proof (cases "priceHistory s token")
  case None
  then show ?thesis using n p
    by (simp add: paired_def add: addPriceData_try_def history_of_def volumes_of_def cleanupOldData_def Let_def)
next
  case (Some h)
  then obtain vh where vh: "volumeHistory s token = Some vh"
    using p by (auto simp: paired_def)
  show ?thesis using n Some vh
    by (simp add: addPriceData_try_def history_of_def volumes_of_def cleanupOldData_def Let_def)
qed

lemma addPriceData_ok:
  assumes n: "normalizePriceData s now pd = Inr nd" and p: "paired s token"
  shows "addPriceData now token pd s =
     s\<lparr>priceHistory := (priceHistory s)
               (token \<mapsto> cleanup_array (config s) now (history_of s token @ [nd])),
            volumeHistory := (volumeHistory s)
               (token \<mapsto> cleanup_array (config s) now
                  (if volume nd \<noteq> None then volumes_of s token @ [volume_entry nd]
                   else volumes_of s token)),
            stats := (stats s)\<lparr>totalPricesProcessed := Suc (totalPricesProcessed (stats s)),
                               lastUpdate := Some now\<rparr>\<rparr>"
  by (simp add: addPriceData_def addPriceData_try_ok [OF n p])

lemma addPriceData_fail:
  assumes "normalizePriceData s now pd = Inl e"
  shows "addPriceData now token pd s = s"
  using assms by (simp add: addPriceData_def addPriceData_try_def)

lemma paired_addPriceData:
  assumes "paired s token" "paired s token'"
  shows "paired (addPriceData now token pd s) token'"
proof (cases "normalizePriceData s now pd")
  case (Inl e)
  then show ?thesis using assms by (simp add: addPriceData_fail)
next
  case (Inr nd)
  show ?thesis using assms(2)
    by (simp add: addPriceData_ok [OF Inr assms(1)] paired_def)
qed

lemma paired_constructor: "paired (constructor c) token"
  by (simp add: paired_def constructor_def)

lemma paired_clearTokenData: "paired s token' \<Longrightarrow> paired (clearTokenData token s) token'"
  by (simp add: paired_def clearTokenData_def)

lemma cleanup_array_fresh: "d \<in> set (cleanup_array c now h) \<Longrightarrow> now - timestamp d \<le> maxAge c"
  by (auto simp: cleanup_array_def Let_def split: if_splits dest: in_set_dropD)

lemma cleanup_array_set: "set (cleanup_array c now h) \<subseteq> set h"
  by (auto simp: cleanup_array_def Let_def split: if_splits dest: in_set_dropD)

lemma cleanup_array_drop:
  "cleanup_array c now h =
     drop (length (filter (\<lambda>d. now - timestamp d \<le> maxAge c) h) - maxHistorySize c)
          (filter (\<lambda>d. now - timestamp d \<le> maxAge c) h)"
  by (simp add: cleanup_array_def Let_def)

lemma cleanup_array_last:
  assumes "now - timestamp d \<le> maxAge c" "0 < maxHistorySize c"
  shows "cleanup_array c now (h @ [d]) \<noteq> [] \<and> last (cleanup_array c now (h @ [d])) = d"
  using assms by (auto simp: cleanup_array_def Let_def)

section \<open>Statistics and filter lemmas\<close>

lemma variance_nonneg: "0 \<le> variance xs"
  unfolding variance_def by (intro divide_nonneg_nonneg sum_list_nonneg) auto

lemma zscore_test_sq:
  assumes "0 < v" "0 \<le> t"
  shows "(\<bar>x / sqrt v\<bar> \<le> t) = (x\<^sup>2 \<le> t\<^sup>2 * v)"
proof -
  have sv: "0 < sqrt v" using assms by simp
  have "(\<bar>x / sqrt v\<bar> \<le> t) = (\<bar>x\<bar> \<le> t * sqrt v)"
    using sv by (simp add: abs_divide pos_divide_le_eq)
  also have "\<dots> = (\<bar>x\<bar> \<le> \<bar>t * sqrt v\<bar>)"
    using assms sv by simp
  also have "\<dots> = (x\<^sup>2 \<le> (t * sqrt v)\<^sup>2)"
    by (rule abs_le_square_iff)
  finally show ?thesis using assms by (simp add: power_mult_distrib)
qed

lemma zscore_test_sq2:
  assumes "0 < v" "0 \<le> t"
  shows "(\<bar>x\<bar> / sqrt v \<le> t) = (x\<^sup>2 \<le> t\<^sup>2 * v)"
  using zscore_test_sq [OF assms, of x] assms by (simp add: abs_divide)

lemma removeOutliersZScore_sq:
  assumes "0 \<le> zScoreThreshold c"
  shows "removeOutliersZScore c data values =
     (if length values < 3 then data
      else if variance values = 0 then data
      else map fst (filter (\<lambda>(d, v). (v - mean values)\<^sup>2 \<le> (zScoreThreshold c)\<^sup>2 * variance values)
                                   (zip data values)))"
proof -
  have "variance values \<noteq> 0 \<Longrightarrow> 0 < variance values"
    using variance_nonneg [of "values"] by simp
  then show ?thesis
    using assms unfolding removeOutliersZScore_def standardDeviation_def
    by (auto simp: Let_def zscore_test_sq zscore_test_sq2 intro!: arg_cong[where f="map fst"] filter_cong)
qed

section \<open>Aggregation lemmas\<close>

lemma twap_loop_sums:
  assumes "\<forall>d\<in>set ds. weight d \<noteq> None"
  shows "twap_loop now ds i ws tw =
           Inr (ws + (\<Sum>j = i..<length ds. price (ds ! j) * spec_combinedWeight now ds j),
                tw + (\<Sum>j = i..<length ds. spec_combinedWeight now ds j))"
  using assms
proof (induction now ds i ws tw rule: twap_loop.induct)
  case (1 now cleanData i weightedSum totalWeight)
  show ?case
  proof (cases "i < length cleanData")
    case False
    then show ?thesis by (simp add: twap_loop.simps)
  next
    case True
    then obtain w where w: "weight (cleanData ! i) = Some w"
      using "1.prems" by (metis nth_mem not_None_eq)
    have tw: "spec_combinedWeight now cleanData i =
               (if i = length cleanData - 1 then now - timestamp (cleanData ! i)
                else timestamp (cleanData ! (i + 1)) - timestamp (cleanData ! i)) * w"
      using True w by (auto simp: spec_combinedWeight_def spec_timeWeight_def spec_sourceWeight_def)
    have step: "twap_loop now cleanData i weightedSum totalWeight =
            twap_loop now cleanData (i + 1)
              (weightedSum + price (cleanData ! i) * spec_combinedWeight now cleanData i)
              (totalWeight + spec_combinedWeight now cleanData i)"
      using True w by (subst twap_loop.simps) (simp add: Let_def tw)
    have ih: "twap_loop now cleanData (i + 1)
              (weightedSum + price (cleanData ! i) * spec_combinedWeight now cleanData i)
              (totalWeight + spec_combinedWeight now cleanData i) =
           Inr (weightedSum + price (cleanData ! i) * spec_combinedWeight now cleanData i
                  + (\<Sum>j = i + 1..<length cleanData. price (cleanData ! j) * spec_combinedWeight now cleanData j),
                totalWeight + spec_combinedWeight now cleanData i
                  + (\<Sum>j = i + 1..<length cleanData. spec_combinedWeight now cleanData j))"
      using "1.IH" [OF True refl refl w refl] "1.prems" by (simp add: tw)
    show ?thesis
      unfolding step ih using True by (simp add: sum.atLeast_Suc_lessThan)
  qed
qed

lemma twap_loop_undefined_weight:
  assumes "i < length ds" "weight (ds ! i) = None"
  shows "twap_loop now ds i ws tw = Inl DecimalError"
  using assms by (subst twap_loop.simps) (simp add: Let_def)

lemma those_Some: "(\<forall>x\<in>set xs. x \<noteq> None) \<Longrightarrow> \<exists>vs. those xs = Some vs"
  by (induction xs) auto

lemma those_None: "None \<in> set xs \<Longrightarrow> those xs = None"
  by (induction xs) (auto split: option.splits)

lemma calculateConfidence_range:
  assumes "\<forall>d\<in>set data. weight d \<noteq> None"
  shows "\<exists>c. calculateConfidence data = Val c \<and> 0 \<le> c \<and> c \<le> 1"
proof -
  obtain vs where "those (map weight data) = Some vs"
    using those_Some [of "map weight data"] assms by auto
  then show ?thesis
    by (simp add: calculateConfidence_def mean_weights_def Let_def)
qed

lemma calculateConfidence_NaN:
  assumes "d \<in> set data" "weight d = None"
  shows "calculateConfidence data = NaN"
proof -
  have "None \<in> set (map weight data)" using assms by force
  then have "those (map weight data) = None" by (rule those_None)
  moreover have "data \<noteq> []" using assms by auto
  ultimately show ?thesis
    by (simp add: calculateConfidence_def mean_weights_def Let_def)
qed

lemma normalize_observation:
  "normalizePriceData s now (observation p v t src) =
     Inr \<lparr> price = p,
           volume = (case v of None \<Rightarrow> None | Some x \<Rightarrow> if x = 0 then None else Some x),
           timestamp = or_default t now,
           source = (if src = [] then ''unknown'' else src),
           weight = Some (or_default (sourceWeights s src) 0.5) \<rparr>"
  by (cases v) (simp_all add: normalizePriceData_def observation_def)

lemma sourceWeights_addPriceData [simp]:
  "sourceWeights (addPriceData now token pd s) = sourceWeights s"
  by (simp add: addPriceData_def addPriceData_try_def cleanupOldData_def Let_def
           split: sum.splits option.splits prod.splits)

lemma config_addPriceData [simp]:
  "config (addPriceData now token pd s) = config s"
  by (simp add: addPriceData_def addPriceData_try_def cleanupOldData_def Let_def
           split: sum.splits option.splits prod.splits)

lemma history_of_addPriceData:
  assumes "normalizePriceData s now pd = Inr nd" "paired s token"
  shows "history_of (addPriceData now token pd s) token =
           cleanup_array (config s) now (history_of s token @ [nd])"
  by (simp add: addPriceData_ok [OF assms] history_of_def)

lemma volumes_of_addPriceData:
  assumes "normalizePriceData s now pd = Inr nd" "paired s token"
  shows "volumes_of (addPriceData now token pd s) token =
           cleanup_array (config s) now
             (if volume nd \<noteq> None then volumes_of s token @ [volume_entry nd]
              else volumes_of s token)"
  by (simp add: addPriceData_ok [OF assms] volumes_of_def)

lemma history_of_addPriceData_other:
  "token' \<noteq> token \<Longrightarrow> history_of (addPriceData now token pd s) token' = history_of s token'"
  by (simp add: addPriceData_def addPriceData_try_def cleanupOldData_def Let_def history_of_def
           split: sum.splits option.splits prod.splits)

lemma volumes_of_addPriceData_other:
  "token' \<noteq> token \<Longrightarrow> volumes_of (addPriceData now token pd s) token' = volumes_of s token'"
  by (simp add: addPriceData_def addPriceData_try_def cleanupOldData_def Let_def volumes_of_def
           split: sum.splits option.splits prod.splits)

lemma weight_default:
  "sourceWeights (constructor c) ''okx'' = Some 1"
  "sourceWeights (constructor c) ''binance'' = Some 1"
  "sourceWeights (constructor c) ''coinbase'' = Some 0.9"
  "sourceWeights (constructor c) ''kraken'' = None"
  "sourceWeights (constructor c) ''huobi'' = None"
  by (simp_all add: constructor_def initializeSourceWeights_def)

lemma cleanup_array_length_le: "length (cleanup_array c now h) \<le> maxHistorySize c"
  by (auto simp: cleanup_array_def Let_def)

lemma history_of_constructor [simp]: "history_of (constructor c) token = []"
  by (simp add: history_of_def constructor_def)

lemma volumes_of_constructor [simp]: "volumes_of (constructor c) token = []"
  by (simp add: volumes_of_def constructor_def)

lemma config_default:
  "config (constructor no_config) =
     \<lparr> zScoreThreshold = 2.5, iqrMultiplier = 1.5, minDataPoints = 3, maxAge = 300000,
       twapWindow = 3600000, twapInterval = 60000, vwapWindow = 3600000, minVolume = 0.01,
       maxHistorySize = 1000 \<rparr>"
  by (simp add: constructor_def no_config_def or_default_def)

section \<open>The basic VWAP scenario\<close>

lemma paired_insert_each:
  "(\<And>k. paired s k) \<Longrightarrow> paired (insert_each token xs s) k"
  by (induction xs arbitrary: s) (auto simp: paired_addPriceData)

lemmas volumes_of_observation = volumes_of_addPriceData [OF normalize_observation]
lemmas history_of_observation = history_of_addPriceData [OF normalize_observation]

lemma calculateVWAP_volumes_of:
  "calculateVWAP now token window s =
     (let windowMs = or_default window (vwapWindow (config s))
      in if volumes_of s token = [] then (Inl NoVolumeData, s)
            else let relevantData = vwap_relevantData now windowMs s (volumes_of s token)
                 in if length relevantData < minDataPoints (config s)
                    then (Inl (InsufficientData (length relevantData)), s)
                    else let (cleanData, s1) = removeOutliers relevantData s
                         in if cleanData = [] then (Inl AllOutliers, s1)
                            else case vwap_loop cleanData 0 0 of
                                   Inl e \<Rightarrow> (Inl e, s1)
                                 | Inr (sumVolumePrice, sumVolume) \<Rightarrow>
                                    if sumVolume = 0 then (Inl ZeroVolume, s1)
                                    else (Inr \<lparr> dataPoints = length cleanData,
                                                outliers = length relevantData - length cleanData,
                                                timeWindow = windowMs,
                                                calculatedAt = now,
                                                sources = distinct_values (map source cleanData),
                                                confidence = calculateConfidence cleanData,
                                                minPrice = Min (set (map price cleanData)),
                                                maxPrice = Max (set (map price cleanData)),
                                                vwap = sumVolumePrice / sumVolume,
                                                totalVolume = sumVolume,
                                                avgVolume = sumVolume / real (length cleanData) \<rparr>,
                                          s1\<lparr>stats := (stats s1)
                                               \<lparr>vwapCalculations := Suc (vwapCalculations (stats s1))\<rparr>\<rparr>))"
  by (simp add: calculateVWAP_def volumes_of_def Let_def split: option.splits)

lemma basic_vwap_volumes:
  assumes "t1 \<le> t2" "t2 \<le> t3" "t3 \<le> t4" "t4 \<le> t5" "t5 \<le> t1 + 300000"
  shows "volumes_of (basic_vwap_store t1 t2 t3 t4 t5) ''SOL/USDC'' = basic_entries t1 t2 t3 t4 t5"
  using assms
  by (simp add: basic_vwap_store_def basic_vwap_observations_def volumes_of_observation
        paired_addPriceData paired_constructor basic_entries_def
        config_default cleanup_array_def or_default_def volume_entry_def volume_point_def)

lemma basic_vwap_config:
  "config (basic_vwap_store t1 t2 t3 t4 t5) = config (constructor no_config)"
  by (simp add: basic_vwap_store_def basic_vwap_observations_def)

lemma basic_prices: "map price (basic_entries t1 t2 t3 t4 t5) = [177.50, 177.45, 177.55, 177.48, 177.52]"
  by (simp add: basic_entries_def volume_point_def)

lemma basic_zscore:
  "removeOutliersZScore (config (constructor no_config)) (basic_entries t1 t2 t3 t4 t5)
       (map price (basic_entries t1 t2 t3 t4 t5)) = basic_entries t1 t2 t3 t4 t5"
  unfolding basic_prices
  by (simp add: removeOutliersZScore_sq config_default mean_def variance_def power2_eq_square)
     (simp add: basic_entries_def)

lemma basic_iqr:
  "removeOutliersIQR (config (constructor no_config)) (basic_entries t1 t2 t3 t4 t5)
      = basic_entries t1 t2 t3 t4 t5"
  by (simp add: removeOutliersIQR_def basic_prices quantile_def config_default Let_def)
     (simp add: basic_entries_def volume_point_def)

lemma basic_relevant:
  assumes "t1 \<le> t2" "t2 \<le> t3" "t3 \<le> t4" "t4 \<le> t5" "now \<le> t1 + 3600000"
  shows "vwap_relevantData now 3600000 (basic_vwap_store u1 u2 u3 u4 u5) (basic_entries t1 t2 t3 t4 t5)
          = basic_entries t1 t2 t3 t4 t5"
  using assms
  by (simp add: vwap_relevantData_def basic_vwap_config config_default basic_entries_def volume_point_def)

lemma basic_removeOutliers:
  "config s = config (constructor no_config) \<Longrightarrow>
   removeOutliers (basic_entries t1 t2 t3 t4 t5) s = (basic_entries t1 t2 t3 t4 t5, s)"
  by (simp add: removeOutliers_def basic_zscore basic_iqr Let_def)

lemma basic_loop: "vwap_loop (basic_entries t1 t2 t3 t4 t5) 0 0 = Inr (958459, 5400)"
  by (simp add: basic_entries_def volume_point_def)

lemma basic_confidence: "calculateConfidence (basic_entries t1 t2 t3 t4 t5) = NaN"
  by (rule calculateConfidence_NaN [where d = "volume_point 177.50 1000 t1 ''okx''"])
     (simp_all add: basic_entries_def volume_point_def)

lemma basic_vwap_run:
  assumes "t1 \<le> t2" "t2 \<le> t3" "t3 \<le> t4" "t4 \<le> t5"
    and "t5 \<le> t1 + 300000" "now \<le> t1 + 3600000"
  shows "fst (calculateVWAP now ''SOL/USDC'' None (basic_vwap_store t1 t2 t3 t4 t5)) =
           Inr \<lparr> dataPoints = 5, outliers = 0, timeWindow = 3600000, calculatedAt = now,
                 sources = [''okx'', ''binance'', ''coinbase'', ''kraken'', ''huobi''],
                 confidence = NaN, minPrice = 177.45, maxPrice = 177.55,
                 vwap = 958459 / 5400, totalVolume = 5400, avgVolume = 1080 \<rparr>"
proof -
  let ?s = "basic_vwap_store t1 t2 t3 t4 t5"
  let ?es = "basic_entries t1 t2 t3 t4 t5"
  have v: "volumes_of ?s ''SOL/USDC'' = ?es"
    using assms by (intro basic_vwap_volumes) 
  have w: "or_default None (vwapWindow (config ?s)) = 3600000"
    by (simp add: basic_vwap_config config_default or_default_def)
  have r: "vwap_relevantData now 3600000 ?s ?es = ?es"
    using assms by (intro basic_relevant)
  have ne: "?es \<noteq> []" "length ?es = 5"
    by (simp_all add: basic_entries_def)
  have src: "distinct_values (map source ?es) = [''okx'', ''binance'', ''coinbase'', ''kraken'', ''huobi'']"
    by (simp add: distinct_values_def basic_entries_def volume_point_def)
  have mn: "Min (price ` set ?es) = 177.45" "Max (price ` set ?es) = 177.55"
    by (simp_all add: basic_entries_def volume_point_def)
  show ?thesis
    unfolding calculateVWAP_volumes_of w Let_def v r
    by (simp add: ne basic_removeOutliers basic_vwap_config config_default basic_loop
          basic_confidence src mn)
qed

section \<open>Lemmas on the scenario stores\<close>

lemma paired_two_pairs: "paired two_pairs token"
  by (simp add: two_pairs_def paired_addPriceData paired_constructor)

lemma config_two_pairs: "config two_pairs = config (constructor no_config)"
  by (simp add: two_pairs_def)

lemma history_two_pairs:
  "history_of two_pairs ''SOL/USDC'' = [price_point 177.5 (Some 1000) 1000 ''okx'' 1]"
  by (simp add: two_pairs_def history_of_observation history_of_addPriceData_other
        paired_constructor weight_default
        config_default cleanup_array_def or_default_def price_point_def)

lemma volumes_two_pairs:
  "volumes_of two_pairs ''SOL/USDC'' = [volume_point 177.5 1000 1000 ''okx'']"
  by (simp add: two_pairs_def volumes_of_observation volumes_of_addPriceData_other
        paired_constructor
        config_default cleanup_array_def or_default_def volume_point_def volume_entry_def)

lemma vwap_relevantData_floor:
  "d \<in> set (vwap_relevantData now w s vh) \<Longrightarrow> \<exists>v. volume d = Some v \<and> minVolume (config s) \<le> v"
  by (auto simp: vwap_relevantData_def split: option.splits)

lemma normalize_low_volume:
  "normalizePriceData (constructor no_config) 1000 low_volume_observation
     = Inr (price_point 177.5 (Some 0.001) 1000 ''low_volume1'' 0.5)"
  by (simp add: low_volume_observation_def normalize_observation price_point_def or_default_def
        constructor_def initializeSourceWeights_def)

section \<open>TWAP lemmas\<close>

lemma calculateTWAP_history_of:
  "calculateTWAP now token window s =
     (let windowMs = or_default window (twapWindow (config s))
      in if history_of s token = [] then (Inl NoPriceData, s)
            else let relevantData = twap_relevantData now windowMs (history_of s token)
                 in if length relevantData < minDataPoints (config s)
                    then (Inl (InsufficientData (length relevantData)), s)
                    else let (cleanData, s1) = removeOutliers relevantData s
                         in if cleanData = [] then (Inl AllOutliers, s1)
                            else case twap_loop now cleanData 0 0 0 of
                                   Inl e \<Rightarrow> (Inl e, s1)
                                 | Inr (weightedSum, totalWeight) \<Rightarrow>
                                    if totalWeight = 0 then (Inl ZeroWeight, s1)
                                    else (Inr \<lparr> dataPoints = length cleanData,
                                                outliers = length relevantData - length cleanData,
                                                timeWindow = windowMs,
                                                calculatedAt = now,
                                                sources = distinct_values (map source cleanData),
                                                confidence = calculateConfidence cleanData,
                                                minPrice = Min (set (map price cleanData)),
                                                maxPrice = Max (set (map price cleanData)),
                                                twap = weightedSum / totalWeight,
                                                priceStdDev = calculateStandardDeviation (map price cleanData),
                                                timeSpread = timestamp (last cleanData) - timestamp (hd cleanData) \<rparr>,
                                          s1\<lparr>stats := (stats s1)
                                               \<lparr>twapCalculations := Suc (twapCalculations (stats s1))\<rparr>\<rparr>))"
  by (simp add: calculateTWAP_def history_of_def Let_def split: option.splits)

lemma zip_map_filter:
  "map fst (filter P (zip xs (map f xs))) = filter (\<lambda>x. P (x, f x)) xs"
  by (induction xs) auto

lemma removeOutliersZScore_filter:
  "\<exists>P. removeOutliersZScore c data (map price data) = filter P data"
proof (cases "length (map price data) < 3 \<or> standardDeviation (map price data) = 0")
  case True
  then have "removeOutliersZScore c data (map price data) = filter (\<lambda>d. True) data"
    by (auto simp: removeOutliersZScore_def Let_def)
  then show ?thesis by blast
next
  case False
  then show ?thesis
    by (auto simp: removeOutliersZScore_def Let_def zip_map_filter)
qed

lemma removeOutliersIQR_filter:
  "\<exists>P. removeOutliersIQR c data = filter P data"
proof (cases "length data < 4")
  case True
  then have "removeOutliersIQR c data = filter (\<lambda>d. True) data"
    by (simp add: removeOutliersIQR_def)
  then show ?thesis by blast
next
  case False
  then show ?thesis
    by (auto simp: removeOutliersIQR_def Let_def)
qed

lemma removeOutliers_filter:
  "\<exists>P. fst (removeOutliers data s) = filter P data"
proof (cases "length data < minDataPoints (config s)")
  case True
  then have "fst (removeOutliers data s) = filter (\<lambda>d. True) data"
    by (simp add: removeOutliers_def)
  then show ?thesis by blast
next
  case False
  obtain P where P: "removeOutliersZScore (config s) data (map price data) = filter P data"
    using removeOutliersZScore_filter by blast
  obtain Q where Q: "removeOutliersIQR (config s) (filter P data) = filter Q (filter P data)"
    using removeOutliersIQR_filter by blast
  have "fst (removeOutliers data s) = filter (\<lambda>d. P d \<and> Q d) data"
    using False by (simp add: removeOutliers_def Let_def P Q)
  then show ?thesis by blast
qed

lemma twap_clean_sorted:
  "sorted (map timestamp (fst (removeOutliers (twap_relevantData now w h) s)))"
proof -
  obtain P where "fst (removeOutliers (twap_relevantData now w h) s)
                   = filter P (twap_relevantData now w h)"
    using removeOutliers_filter by blast
  then show ?thesis
    by (simp add: twap_relevantData_def sorted_filter)
qed

lemma removeOutliers_weights:
  assumes "\<forall>d\<in>set data. weight d \<noteq> None"
  shows "\<forall>d\<in>set (fst (removeOutliers data s)). weight d \<noteq> None"
proof -
  obtain P where "fst (removeOutliers data s) = filter P data"
    using removeOutliers_filter by blast
  then show ?thesis using assms by simp
qed

lemma twap_relevantData_set: "set (twap_relevantData now w h) \<subseteq> set h"
  by (auto simp: twap_relevantData_def)

lemma calculateTWAP_clean:
  assumes "history_of s token \<noteq> []"
    and "relevant = twap_relevantData now (or_default window (twapWindow (config s))) (history_of s token)"
    and "minDataPoints (config s) \<le> length relevant"
    and "clean = fst (removeOutliers relevant s)" "clean \<noteq> []"
    and "\<forall>d\<in>set clean. weight d \<noteq> None"
  shows "fst (calculateTWAP now token window s) =
     (if (\<Sum>i<length clean. spec_combinedWeight now clean i) = 0 then Inl ZeroWeight
      else Inr \<lparr> dataPoints = length clean,
                 outliers = length relevant - length clean,
                 timeWindow = or_default window (twapWindow (config s)),
                 calculatedAt = now,
                 sources = distinct_values (map source clean),
                 confidence = calculateConfidence clean,
                 minPrice = Min (set (map price clean)),
                 maxPrice = Max (set (map price clean)),
                 twap = spec_twap now clean,
                 priceStdDev = calculateStandardDeviation (map price clean),
                 timeSpread = timestamp (last clean) - timestamp (hd clean) \<rparr>)"
proof -
  obtain s1 where r: "removeOutliers relevant s = (clean, s1)"
    using assms(4) by (cases "removeOutliers relevant s") simp
  have l: "twap_loop now clean 0 0 0 =
             Inr ((\<Sum>i<length clean. price (clean ! i) * spec_combinedWeight now clean i),
                  (\<Sum>i<length clean. spec_combinedWeight now clean i))"
    using twap_loop_sums [OF assms(6), of now 0 0 0] by (simp add: lessThan_atLeast0)
  show ?thesis
    unfolding calculateTWAP_history_of Let_def assms(2) [symmetric]
    using assms(1,3,5) by (simp add: r l spec_twap_def)
qed

lemma same_timestamp_weight:
  assumes "\<forall>d\<in>set ds. timestamp d = t" "i < length ds"
  shows "spec_combinedWeight now ds i =
           (if i = length ds - 1 then (now - t) * spec_sourceWeight (last ds) else 0)"
proof -
  have ti: "timestamp (ds ! i) = t" using assms by simp
  show ?thesis
  proof (cases "Suc i < length ds")
    case True
    then have "timestamp (ds ! Suc i) = t" using assms by simp
    moreover have "i \<noteq> length ds - 1" using True by arith
    ultimately show ?thesis using True ti
      by (simp add: spec_combinedWeight_def spec_timeWeight_def)
  next
    case False
    then have i: "i = length ds - 1" using assms(2) by arith
    have "ds \<noteq> []" using assms(2) by auto
    then have "last ds = ds ! i" using i by (simp add: last_conv_nth)
    then show ?thesis using False ti i
      by (simp add: spec_combinedWeight_def spec_timeWeight_def)
  qed
qed

lemma same_timestamp_sums:
  assumes "\<forall>d\<in>set ds. timestamp d = t" "ds \<noteq> []"
  shows "(\<Sum>i<length ds. spec_combinedWeight now ds i) = (now - t) * spec_sourceWeight (last ds)"
    and "(\<Sum>i<length ds. price (ds ! i) * spec_combinedWeight now ds i)
           = price (last ds) * ((now - t) * spec_sourceWeight (last ds))"
proof -
  have n: "length ds - 1 < length ds" using assms(2) by simp
  have l: "last ds = ds ! (length ds - 1)" using assms(2) by (simp add: last_conv_nth)
  have "(\<Sum>i<length ds. spec_combinedWeight now ds i)
          = (\<Sum>i<length ds. if i = length ds - 1 then (now - t) * spec_sourceWeight (last ds) else 0)"
    by (rule sum.cong) (simp_all add: same_timestamp_weight [OF assms(1)])
  also have "\<dots> = (now - t) * spec_sourceWeight (last ds)"
    using n by (simp add: sum.delta)
  finally show "(\<Sum>i<length ds. spec_combinedWeight now ds i) = (now - t) * spec_sourceWeight (last ds)" .
  have "(\<Sum>i<length ds. price (ds ! i) * spec_combinedWeight now ds i)
          = (\<Sum>i<length ds. if i = length ds - 1
                then price (last ds) * ((now - t) * spec_sourceWeight (last ds)) else 0)"
    by (rule sum.cong) (simp_all add: same_timestamp_weight [OF assms(1)] l)
  also have "\<dots> = price (last ds) * ((now - t) * spec_sourceWeight (last ds))"
    using n by (simp add: sum.delta)
  finally show "(\<Sum>i<length ds. price (ds ! i) * spec_combinedWeight now ds i)
           = price (last ds) * ((now - t) * spec_sourceWeight (last ds))" .
qed

lemma twap_store_history:
  assumes "u1 \<noteq> 0" "u2 \<noteq> 0" "u3 \<noteq> 0" "u4 \<noteq> 0" "u5 \<noteq> 0"
    and "now - u1 \<le> 300000" "now - u2 \<le> 300000" "now - u3 \<le> 300000"
        "now - u4 \<le> 300000" "now - u5 \<le> 300000"
  shows "history_of (twap_store u1 u2 u3 u4 u5 now) ''SOL/USDC'' = twap_entries u1 u2 u3 u4 u5"
  using assms
  by (simp add: twap_store_def twap_observations_def twap_entries_def history_of_observation
        paired_addPriceData paired_constructor weight_default
        config_default cleanup_array_def or_default_def price_point_def)

lemma twap_store_config:
  "config (twap_store u1 u2 u3 u4 u5 now) = config (constructor no_config)"
  by (simp add: twap_store_def twap_observations_def)

lemma twap_prices:
  "map price (twap_entries u1 u2 u3 u4 u5) = [177.50, 177.60, 177.45, 177.70, 177.55]"
  by (simp add: twap_entries_def price_point_def)

lemma twap_zscore:
  "removeOutliersZScore (config (constructor no_config)) (twap_entries u1 u2 u3 u4 u5)
       (map price (twap_entries u1 u2 u3 u4 u5)) = twap_entries u1 u2 u3 u4 u5"
  unfolding twap_prices
  by (simp add: removeOutliersZScore_sq config_default mean_def variance_def power2_eq_square)
     (simp add: twap_entries_def)

lemma twap_iqr:
  "removeOutliersIQR (config (constructor no_config)) (twap_entries u1 u2 u3 u4 u5)
      = twap_entries u1 u2 u3 u4 u5"
  by (simp add: removeOutliersIQR_def twap_prices quantile_def config_default Let_def)
     (simp add: twap_entries_def price_point_def)

lemma twap_removeOutliers:
  "config s = config (constructor no_config) \<Longrightarrow>
   removeOutliers (twap_entries u1 u2 u3 u4 u5) s = (twap_entries u1 u2 u3 u4 u5, s)"
  by (simp add: removeOutliers_def twap_zscore twap_iqr Let_def)

lemma twap_sorted:
  assumes "u1 \<le> u2" "u2 \<le> u3" "u3 \<le> u4" "u4 \<le> u5"
  shows "sort_key timestamp (twap_entries u1 u2 u3 u4 u5) = twap_entries u1 u2 u3 u4 u5"
  using assms by (simp add: twap_entries_def price_point_def)

lemma twap_relevant:
  assumes "u1 \<le> u2" "u2 \<le> u3" "u3 \<le> u4" "u4 \<le> u5" "now - w \<le> u1"
  shows "twap_relevantData now w (twap_entries u1 u2 u3 u4 u5) = twap_entries u1 u2 u3 u4 u5"
proof -
  have "filter (\<lambda>d. now - w \<le> timestamp d) (twap_entries u1 u2 u3 u4 u5) = twap_entries u1 u2 u3 u4 u5"
    using assms by (simp add: twap_entries_def price_point_def)
  then show ?thesis by (simp add: twap_relevantData_def twap_sorted [OF assms(1-4)])
qed

lemma twap_store_clean:
  assumes "u1 \<noteq> 0" "u2 \<noteq> 0" "u3 \<noteq> 0" "u4 \<noteq> 0" "u5 \<noteq> 0"
    and "u1 \<le> u2" "u2 \<le> u3" "u3 \<le> u4" "u4 \<le> u5"
    and "t0 - u1 \<le> 300000" "now - or_default window 3600000 \<le> u1"
  shows "history_of (twap_store u1 u2 u3 u4 u5 t0) ''SOL/USDC'' = twap_entries u1 u2 u3 u4 u5"
    and "twap_relevantData now (or_default window (twapWindow (config (twap_store u1 u2 u3 u4 u5 t0))))
           (history_of (twap_store u1 u2 u3 u4 u5 t0) ''SOL/USDC'') = twap_entries u1 u2 u3 u4 u5"
    and "fst (removeOutliers (twap_entries u1 u2 u3 u4 u5) (twap_store u1 u2 u3 u4 u5 t0))
           = twap_entries u1 u2 u3 u4 u5"
proof -
  show h: "history_of (twap_store u1 u2 u3 u4 u5 t0) ''SOL/USDC'' = twap_entries u1 u2 u3 u4 u5"
    using assms by (intro twap_store_history) simp_all
  show "twap_relevantData now (or_default window (twapWindow (config (twap_store u1 u2 u3 u4 u5 t0))))
           (history_of (twap_store u1 u2 u3 u4 u5 t0) ''SOL/USDC'') = twap_entries u1 u2 u3 u4 u5"
    unfolding h using assms
    by (intro twap_relevant) (simp_all add: twap_store_config config_default)
  show "fst (removeOutliers (twap_entries u1 u2 u3 u4 u5) (twap_store u1 u2 u3 u4 u5 t0))
           = twap_entries u1 u2 u3 u4 u5"
    by (simp add: twap_removeOutliers twap_store_config)
qed

lemma twap_entries_facts:
  "twap_entries u1 u2 u3 u4 u5 \<noteq> []"
  "length (twap_entries u1 u2 u3 u4 u5) = 5"
  "last (twap_entries u1 u2 u3 u4 u5) = price_point 177.55 None u5 ''huobi'' 0.5"
  "\<forall>d\<in>set (twap_entries u1 u2 u3 u4 u5). weight d \<noteq> None \<and> weight d \<noteq> Some 0"
  "\<forall>d\<in>set (twap_entries u1 u2 u3 u4 u5). weight d \<noteq> None"
  "\<forall>d\<in>set (twap_entries u u u u u). timestamp d = u"
  by (simp_all add: twap_entries_def price_point_def del: not_None_eq)

lemma same_time_run:
  "fst (calculateTWAP 2000 ''SOL/USDC'' None (twap_store 1000 1000 1000 1000 1000 1000))
     = Inr \<lparr> dataPoints = 5, outliers = 0, timeWindow = 3600000, calculatedAt = 2000,
             sources = [''okx'', ''binance'', ''coinbase'', ''kraken'', ''huobi''],
             confidence = calculateConfidence (twap_entries 1000 1000 1000 1000 1000),
             minPrice = 177.45, maxPrice = 177.70, twap = 177.55,
             priceStdDev = calculateStandardDeviation [177.50, 177.60, 177.45, 177.70, 177.55],
             timeSpread = 0 \<rparr>"
proof -
  let ?s = "twap_store 1000 1000 1000 1000 1000 1000"
  let ?es = "twap_entries 1000 1000 1000 1000 1000"
  note c = twap_store_clean [of 1000 1000 1000 1000 1000 1000 2000 None, simplified or_default_def, simplified]
  have h: "history_of ?s ''SOL/USDC'' \<noteq> []"
    using c(1) twap_entries_facts(1) by simp
  have r: "?es = twap_relevantData 2000 (or_default None (twapWindow (config ?s))) (history_of ?s ''SOL/USDC'')"
    using c(2) by (simp add: or_default_def)
  have m: "minDataPoints (config ?s) \<le> length ?es"
    by (simp add: twap_store_config config_default twap_entries_facts)
  have cl: "?es = fst (removeOutliers ?es ?s)"
    using c(3) by simp
  note run = calculateTWAP_clean [OF h r m cl twap_entries_facts(1) twap_entries_facts(5)]
  note sums = same_timestamp_sums [OF twap_entries_facts(6) [of 1000] twap_entries_facts(1), where now = 2000]
  have sw: "spec_sourceWeight (last ?es) = 0.5" "price (last ?es) = 177.55"
    by (simp_all add: twap_entries_facts(3) spec_sourceWeight_def price_point_def)
  have src: "distinct_values (map source ?es) = [''okx'', ''binance'', ''coinbase'', ''kraken'', ''huobi'']"
    by (simp add: distinct_values_def twap_entries_def price_point_def)
  have mn: "Min (set (map price ?es)) = 177.45" "Max (set (map price ?es)) = 177.70"
    by (simp_all add: twap_prices)
  have ts: "timestamp (last ?es) - timestamp (hd ?es) = 0"
    by (simp add: twap_entries_def price_point_def)
  have w: "or_default None (twapWindow (config ?s)) = 3600000"
    by (simp add: twap_store_config config_default or_default_def)
  show ?thesis
    unfolding run spec_twap_def sums sw src mn ts w twap_prices
    by (simp add: twap_entries_facts(2))
qed

lemma basic_twap_sums:
  "(\<Sum>i<length (twap_entries 700000 760000 820000 880000 940000).
       spec_combinedWeight 1000000 (twap_entries 700000 760000 820000 880000 940000) i) = 234000"
  "(\<Sum>i<length (twap_entries 700000 760000 820000 880000 940000).
       price (twap_entries 700000 760000 820000 880000 940000 ! i)
        * spec_combinedWeight 1000000 (twap_entries 700000 760000 820000 880000 940000) i) = 41545800"
  by (simp_all add: spec_combinedWeight_def spec_timeWeight_def spec_sourceWeight_def
        twap_entries_def price_point_def eval_nat_numeral)

section \<open>Lemmas on the outlier filters\<close>

lemma price_flat_point [simp]: "price (flat_point p) = p"
  by (simp add: flat_point_def price_point_def)

lemma flat_point_eq [simp]: "(flat_point p = flat_point q) = (p = q)"
  by (auto simp: flat_point_def price_point_def)

lemma zscore_first_pass:
  "removeOutliersZScore (config (constructor no_config)) zscore_example (map price zscore_example)
     = map flat_point [100, 100, 100, 100, 100, 100, 100, 100, 100, 100, 101]"
  by (simp add: zscore_example_def removeOutliersZScore_sq config_default mean_def variance_def
        power2_eq_square)

lemma zscore_second_pass:
  "removeOutliersZScore (config (constructor no_config))
      (map flat_point [100, 100, 100, 100, 100, 100, 100, 100, 100, 100, 101])
      (map price (map flat_point [100, 100, 100, 100, 100, 100, 100, 100, 100, 100, 101]))
     = map flat_point [100, 100, 100, 100, 100, 100, 100, 100, 100, 100]"
  by (simp add: removeOutliersZScore_sq config_default mean_def variance_def power2_eq_square)

lemma iqr_first_pass:
  "removeOutliersIQR (config (constructor no_config)) iqr_example
     = map flat_point [100, 100, 100, 100, 101]"
  by (simp add: iqr_example_def removeOutliersIQR_def quantile_def config_default Let_def)

lemma iqr_second_pass:
  "removeOutliersIQR (config (constructor no_config)) (map flat_point [100, 100, 100, 100, 101])
     = map flat_point [100, 100, 100, 100]"
  by (simp add: removeOutliersIQR_def quantile_def config_default Let_def)

lemma removeOutliersZScore_subseq:
  "subseq (removeOutliersZScore c data (map price data)) data"
proof -
  obtain P where "removeOutliersZScore c data (map price data) = filter P data"
    using removeOutliersZScore_filter by blast
  then show ?thesis by simp
qed

lemma removeOutliersIQR_subseq: "subseq (removeOutliersIQR c data) data"
proof -
  obtain P where "removeOutliersIQR c data = filter P data"
    using removeOutliersIQR_filter by blast
  then show ?thesis by simp
qed

lemma flat_zscore:
  "removeOutliersZScore c (map flat_point [100, 100, 100, 100])
     (map price (map flat_point [100, 100, 100, 100])) = map flat_point [100, 100, 100, 100]"
  by (simp add: removeOutliersZScore_def standardDeviation_def variance_def mean_def)

lemma short_iqr:
  "removeOutliersIQR c (map flat_point [100, 101, 104]) = map flat_point [100, 101, 104]"
  by (simp add: removeOutliersIQR_def)

section \<open>Lemmas on the confidence\<close>

lemma length_distinct_values: "length (distinct_values xs) = card (set xs)"
  by (simp add: distinct_values_def length_remdups_card_conv)

lemma standardDeviation_short: "length xs < 2 \<Longrightarrow> standardDeviation xs = 0"
proof -
  assume "length xs < 2"
  then consider "xs = []" | x where "xs = [x]"
    by (cases xs) (auto simp: length_Suc_conv)
  then show ?thesis
    by cases (simp_all add: standardDeviation_def variance_def mean_def)
qed

lemma calculateStandardDeviation_eq: "calculateStandardDeviation xs = standardDeviation xs"
  by (simp add: calculateStandardDeviation_def standardDeviation_short)

lemma those_map_weight:
  "\<forall>d\<in>set data. weight d \<noteq> None \<Longrightarrow> those (map weight data) = Some (map spec_sourceWeight data)"
  by (induction data) (auto simp: spec_sourceWeight_def)

lemma calculateConfidence_spec:
  assumes "data \<noteq> []" "\<forall>d\<in>set data. weight d \<noteq> None" "0 < mean (map price data)"
  shows "calculateConfidence data = Val (spec_confidence data)"
  using assms(1,3)
  by (simp add: calculateConfidence_def spec_confidence_def mean_weights_def Let_def
        those_map_weight [OF assms(2)] length_distinct_values calculateStandardDeviation_eq
        algebra_simps)

lemma calculateConfidence_guard:
  assumes "data \<noteq> []" "\<forall>d\<in>set data. weight d \<noteq> None" "mean (map price data) \<le> 0"
  shows "calculateConfidence data =
           Val (max 0 (min 1 (0.30 * min (real (length data) / 10) 1
                       + 0.30 * min (real (card (set (map source data))) / 3) 1
                       + 0.10 * mean (map spec_sourceWeight data))))"
  using assms(1,3)
  by (simp add: calculateConfidence_def mean_weights_def Let_def
        those_map_weight [OF assms(2)] length_distinct_values algebra_simps)

lemma volume_weights_addPriceData:
  assumes "paired s token" "\<forall>d\<in>set (volumes_of s token). weight d = None"
  shows "\<forall>d\<in>set (volumes_of (addPriceData now token pd s) token). weight d = None"
proof (cases "normalizePriceData s now pd")
  case (Inl e)
  then show ?thesis using assms(2) by (simp add: addPriceData_fail)
next
  case (Inr nd)
  have "\<forall>d\<in>set (if volume nd \<noteq> None then volumes_of s token @ [volume_entry nd]
                   else volumes_of s token). weight d = None"
    using assms(2) by (auto simp: volume_entry_def)
  then show ?thesis
    unfolding volumes_of_addPriceData [OF Inr assms(1)]
    using cleanup_array_set by blast
qed

lemma vwap_relevantData_set: "set (vwap_relevantData now w s vh) \<subseteq> set vh"
  by (auto simp: vwap_relevantData_def)

lemma removeOutliers_set: "set (fst (removeOutliers data s)) \<subseteq> set data"
proof -
  obtain P where "fst (removeOutliers data s) = filter P data"
    using removeOutliers_filter by blast
  then show ?thesis by auto
qed

lemma calculateVWAP_confidence_NaN:
  assumes "\<forall>d\<in>set (volumes_of s token). weight d = None"
    and "fst (calculateVWAP now token window s) = Inr r"
  shows "confidence r = NaN"
proof -
  let ?rel = "vwap_relevantData now (or_default window (vwapWindow (config s))) s (volumes_of s token)"
  let ?clean = "fst (removeOutliers ?rel s)"
  have sub: "set ?clean \<subseteq> set (volumes_of s token)"
    using removeOutliers_set [of ?rel s] vwap_relevantData_set by blast
  have c: "confidence r = calculateConfidence ?clean" and ne: "?clean \<noteq> []"
    using assms(2)
    by (auto simp: calculateVWAP_volumes_of Let_def split_beta
             split: if_splits sum.splits prod.splits)
  obtain d where d: "d \<in> set ?clean" using ne by (cases ?clean) auto
  then have "weight d = None" using sub assms(1) by blast
  then show ?thesis
    unfolding c using d by (rule calculateConfidence_NaN [rotated])
qed

section \<open>Invariants of the reachable states\<close>

lemma maxHistorySize_constructor: "0 < maxHistorySize (config (constructor c))"
  by (simp add: constructor_def or_default_def split: option.splits)

lemma normalizePriceData_weight:
  "normalizePriceData s now pd = Inr nd \<Longrightarrow> weight nd \<noteq> None"
  by (auto simp: normalizePriceData_def split: sum.splits if_splits)

lemma history_weights_addPriceData:
  assumes "paired s token" "\<forall>d\<in>set (history_of s token). weight d \<noteq> None"
  shows "\<forall>d\<in>set (history_of (addPriceData now token pd s) token). weight d \<noteq> None"
proof (cases "normalizePriceData s now pd")
  case (Inl e)
  then show ?thesis using assms(2) by (simp add: addPriceData_fail)
next
  case (Inr nd)
  have "\<forall>d\<in>set (history_of s token @ [nd]). weight d \<noteq> None"
    using assms(2) normalizePriceData_weight [OF Inr] by auto
  then show ?thesis
    unfolding history_of_addPriceData [OF Inr assms(1)]
    using cleanup_array_set by blast
qed

section \<open>Lemmas on what the calculators read\<close>

lemma vwap_loop_sums:
  assumes "\<forall>d\<in>set ds. volume d \<noteq> None"
  shows "vwap_loop ds a b =
           Inr (a + sum_list (map (\<lambda>d. price d * spec_volume d) ds),
                b + sum_list (map spec_volume ds))"
  using assms
  by (induction ds arbitrary: a b) (auto simp: spec_volume_def algebra_simps)

lemma removeOutliers_subseq: "subseq (fst (removeOutliers data s)) data"
proof -
  obtain P where "fst (removeOutliers data s) = filter P data"
    using removeOutliers_filter by blast
  then show ?thesis by simp
qed

lemma calculateVWAP_floor:
  assumes "fst (calculateVWAP now token window s) = Inr r"
  shows "\<exists>clean. clean \<noteq> []
           \<and> subseq clean (volumes_of s token)
           \<and> (\<forall>d\<in>set clean. \<exists>v. volume d = Some v \<and> minVolume (config s) \<le> v)
           \<and> dataPoints r = length clean
           \<and> totalVolume r = sum_list (map spec_volume clean)
           \<and> vwap r = sum_list (map (\<lambda>d. price d * spec_volume d) clean)
                         / sum_list (map spec_volume clean)"
proof -
  let ?rel = "vwap_relevantData now (or_default window (vwapWindow (config s))) s (volumes_of s token)"
  let ?clean = "fst (removeOutliers ?rel s)"
  have sub: "subseq ?clean (volumes_of s token)"
    using removeOutliers_subseq [of ?rel s]
    by (rule subseq_order.trans) (simp add: vwap_relevantData_def)
  have fl: "\<forall>d\<in>set ?clean. \<exists>v. volume d = Some v \<and> minVolume (config s) \<le> v"
    using removeOutliers_set [of ?rel s] vwap_relevantData_floor by blast
  then have vs: "\<forall>d\<in>set ?clean. volume d \<noteq> None" by auto
  have res: "?clean \<noteq> [] \<and> dataPoints r = length ?clean
           \<and> totalVolume r = sum_list (map spec_volume ?clean)
           \<and> vwap r = sum_list (map (\<lambda>d. price d * spec_volume d) ?clean)
                         / sum_list (map spec_volume ?clean)"
    using assms
    by (auto simp: calculateVWAP_volumes_of Let_def split_beta vwap_loop_sums [OF vs]
             split: if_splits)
  show ?thesis using sub fl res by blast
qed

lemma fst_removeOutliers_config:
  "config s1 = config s2 \<Longrightarrow> fst (removeOutliers data s1) = fst (removeOutliers data s2)"
  by (simp add: removeOutliers_def Let_def)

lemma calculateVWAP_cong:
  assumes "volumes_of s1 token = volumes_of s2 token" "config s1 = config s2"
  shows "fst (calculateVWAP now token window s1) = fst (calculateVWAP now token window s2)"
proof -
  have r: "vwap_relevantData now w s1 vh = vwap_relevantData now w s2 vh" for w vh
    unfolding vwap_relevantData_def assms(2) ..
  show ?thesis
    unfolding calculateVWAP_volumes_of Let_def split_beta assms(1) r
      fst_removeOutliers_config [OF assms(2)] assms(2)
    by (simp split: sum.splits prod.splits)
qed

lemma cleanup_array_Nil [simp]: "cleanup_array c now [] = []"
  by (simp add: cleanup_array_def)

lemma config_cleanupOldData [simp]: "config (cleanupOldData now token s) = config s"
  by (simp add: cleanupOldData_def Let_def split: option.splits)

lemma volumes_of_cleanupOldData:
  "volumes_of (cleanupOldData now token s) token = cleanup_array (config s) now (volumes_of s token)"
  by (simp add: cleanupOldData_def volumes_of_def Let_def split: option.splits)

lemma volume_filter_volumes:
  "volumes_of volume_filter_store ''SOL/USDC'' =
     [volume_point 177.50 0.001 1000 ''low_volume1'', volume_point 177.45 1500 1000 ''binance'',
      volume_point 177.55 0.005 1000 ''low_volume2'', volume_point 177.48 1200 1000 ''kraken'',
      volume_point 177.52 900 1000 ''huobi'']"
  by (simp add: volume_filter_store_def volume_filter_observations_def volumes_of_observation
        paired_addPriceData paired_constructor
        config_default cleanup_array_def or_default_def volume_entry_def volume_point_def)

lemma volume_filter_config: "config volume_filter_store = config (constructor no_config)"
  by (simp add: volume_filter_store_def volume_filter_observations_def)

lemma volume_filter_relevant:
  "vwap_relevantData 2000 3600000 volume_filter_store (volumes_of volume_filter_store ''SOL/USDC'')
     = volume_filter_kept"
  by (simp add: volume_filter_volumes vwap_relevantData_def volume_filter_config config_default
        volume_point_def volume_filter_kept_def)

lemma volume_filter_removeOutliers:
  "config s = config (constructor no_config) \<Longrightarrow>
   removeOutliers volume_filter_kept s = (volume_filter_kept, s)"
proof -
  have p: "map price volume_filter_kept = [177.45, 177.48, 177.52]"
    by (simp add: volume_filter_kept_def volume_point_def)
  have z: "removeOutliersZScore (config (constructor no_config)) volume_filter_kept
             (map price volume_filter_kept) = volume_filter_kept"
    unfolding p
    by (simp add: removeOutliersZScore_sq config_default mean_def variance_def power2_eq_square)
       (simp add: volume_filter_kept_def)
  have i: "removeOutliersIQR c volume_filter_kept = volume_filter_kept" for c
    by (simp add: removeOutliersIQR_def volume_filter_kept_def)
  assume "config s = config (constructor no_config)"
  then show ?thesis
    by (simp add: removeOutliers_def z i Let_def)
qed

lemma volume_filter_run:
  "fst (calculateVWAP 2000 ''SOL/USDC'' None volume_filter_store) =
     Inr \<lparr> dataPoints = 3, outliers = 0, timeWindow = 3600000, calculatedAt = 2000,
           sources = [''binance'', ''kraken'', ''huobi''],
           confidence = NaN, minPrice = 177.45, maxPrice = 177.52,
           vwap = 638919 / 3600, totalVolume = 3600, avgVolume = 1200 \<rparr>"
proof -
  let ?s = volume_filter_store
  let ?es = volume_filter_kept
  have w: "or_default None (vwapWindow (config ?s)) = 3600000"
    by (simp add: volume_filter_config config_default or_default_def)
  have ne: "volumes_of ?s ''SOL/USDC'' \<noteq> []" "?es \<noteq> []" "length ?es = 3"
    by (simp_all add: volume_filter_volumes volume_filter_kept_def)
  have src: "distinct_values (map source ?es) = [''binance'', ''kraken'', ''huobi'']"
    by (simp add: distinct_values_def volume_filter_kept_def volume_point_def)
  have mn: "Min (price ` set ?es) = 177.45" "Max (price ` set ?es) = 177.52"
    by (simp_all add: volume_filter_kept_def volume_point_def)
  have l: "vwap_loop ?es 0 0 = Inr (638919, 3600)"
    by (simp add: volume_filter_kept_def volume_point_def)
  have c: "calculateConfidence ?es = NaN"
    by (rule calculateConfidence_NaN [where d = "volume_point 177.45 1500 1000 ''binance''"])
       (simp_all add: volume_filter_kept_def volume_point_def)
  show ?thesis
    unfolding calculateVWAP_volumes_of w Let_def volume_filter_relevant
    by (simp add: ne volume_filter_removeOutliers volume_filter_config config_default l c src mn)
qed

lemma weighted_loop_sums:
  assumes "\<forall>d\<in>set ds. weight d \<noteq> None"
  shows "weighted_loop ds a b =
           Inr (a + sum_list (map (\<lambda>d. price d * spec_sourceWeight d) ds),
                b + sum_list (map spec_sourceWeight ds))"
  using assms
  by (induction ds arbitrary: a b) (auto simp: spec_sourceWeight_def algebra_simps)

lemma calculateWeightedAverage_clean:
  assumes "history_of s token \<noteq> []"
    and "clean = fst (removeOutliers (recent_snapshot s token) s)" "clean \<noteq> []"
    and "\<forall>d\<in>set clean. weight d \<noteq> None"
  shows "fst (calculateWeightedAverage now token s) =
           Inr \<lparr> weightedPrice =
                   decimal_div (sum_list (map (\<lambda>d. price d * spec_sourceWeight d) clean))
                               (sum_list (map spec_sourceWeight clean)),
                 weightedDataPoints = length clean,
                 weightedConfidence = calculateConfidence clean,
                 weightedAt = now \<rparr>"
proof -
  obtain s1 where r: "removeOutliers (recent_snapshot s token) s = (clean, s1)"
    using assms(2) by (cases "removeOutliers (recent_snapshot s token) s") simp
  obtain h where h: "priceHistory s token = Some h" "h \<noteq> []" "history_of s token = h"
    using assms(1) by (auto simp: history_of_def split: option.splits)
  have r': "removeOutliers (drop (length h - 10) h) s = (clean, s1)"
    using r h by (simp add: recent_snapshot_def)
  show ?thesis
    using h assms(3)
    by (simp add: calculateWeightedAverage_def Let_def r' weighted_loop_sums [OF assms(4)])
qed

lemma twap_loop_error:
  "twap_loop now ds i a b = Inl e \<Longrightarrow> e = DecimalError"
proof (induction now ds i a b rule: twap_loop.induct)
  case (1 now cleanData i weightedSum totalWeight)
  show ?case
  proof (cases "i < length cleanData")
    case False
    then show ?thesis using "1.prems" by (simp add: twap_loop.simps)
  next
    case True
    show ?thesis
    proof (cases "weight (cleanData ! i)")
      case None
      then show ?thesis using True "1.prems"
        by (subst (asm) twap_loop.simps) (simp add: Let_def)
    next
      case (Some w)
      then show ?thesis using True "1.prems" "1.IH" [OF True refl refl Some refl]
        by (subst (asm) twap_loop.simps) (simp add: Let_def)
    qed
  qed
qed

lemma calculateTWAP_not_empty:
  "history_of s token \<noteq> [] \<Longrightarrow> fst (calculateTWAP now token window s) \<noteq> Inl NoPriceData"
  by (auto simp: calculateTWAP_history_of Let_def split_beta split: sum.splits prod.splits
           dest: twap_loop_error)

lemma history_of_cleanupOldData:
  "history_of (cleanupOldData now token s) token = cleanup_array (config s) now (history_of s token)"
  by (simp add: cleanupOldData_def history_of_def Let_def split: option.splits)

lemma paired_zero_volume_store: "paired zero_volume_store token"
  by (simp add: zero_volume_store_def paired_addPriceData paired_constructor)

lemma config_zero_volume_store: "config zero_volume_store = config (constructor no_config)"
  by (simp add: zero_volume_store_def)

lemma history_zero_volume_store:
  "history_of zero_volume_store ''ZERO/VOLUME'' =
     [price_point 100 None 1000 ''test1'' 0.5, price_point 101 None 1100 ''test2'' 0.5]"
  by (simp add: zero_volume_store_def history_of_observation paired_addPriceData paired_constructor
        config_default cleanup_array_def or_default_def price_point_def
        constructor_def [of no_config, THEN arg_cong, of sourceWeights] initializeSourceWeights_def)

lemma volumes_zero_volume_store: "volumes_of zero_volume_store ''ZERO/VOLUME'' = []"
  by (simp add: zero_volume_store_def volumes_of_observation paired_addPriceData paired_constructor
        config_default cleanup_array_def)

lemma normalize_third_zero_volume:
  "normalizePriceData zero_volume_store 1200 third_zero_volume
     = Inr (price_point 102 None 1200 ''test3'' 0.5)"
  by (simp add: third_zero_volume_def normalize_observation price_point_def or_default_def
        zero_volume_store_def constructor_def initializeSourceWeights_def)

lemma normalize_string_zero:
  "normalizePriceData (constructor no_config) 1000 string_zero_observation
     = Inr (price_point 100 (Some 0) 1000 ''test1'' 0.5)"
  by (simp add: string_zero_observation_def normalizePriceData_def price_point_def or_default_def
        constructor_def initializeSourceWeights_def)

lemma zero_volume_outliers:
  "config s = config (constructor no_config) \<Longrightarrow>
   removeOutliers zero_volume_entries s = (zero_volume_entries, s)"
proof -
  have p: "map price zero_volume_entries = [100, 101, 102]"
    by (simp add: zero_volume_entries_def price_point_def)
  have z: "removeOutliersZScore (config (constructor no_config)) zero_volume_entries
             (map price zero_volume_entries) = zero_volume_entries"
    unfolding p
    by (simp add: removeOutliersZScore_sq config_default mean_def variance_def power2_eq_square)
       (simp add: zero_volume_entries_def)
  have i: "removeOutliersIQR c zero_volume_entries = zero_volume_entries" for c
    by (simp add: removeOutliersIQR_def zero_volume_entries_def)
  assume "config s = config (constructor no_config)"
  then show ?thesis
    by (simp add: removeOutliers_def z i Let_def)
qed

lemma zero_volume_sums:
  "(\<Sum>i<length zero_volume_entries. spec_combinedWeight 2000 zero_volume_entries i) = 500"
  "spec_twap 2000 zero_volume_entries = 50850 / 500"
  "sum_list (map (\<lambda>d. price d * spec_sourceWeight d) zero_volume_entries) = 151.5"
  "sum_list (map spec_sourceWeight zero_volume_entries) = 1.5"
  by (simp_all add: spec_twap_def spec_combinedWeight_def spec_timeWeight_def spec_sourceWeight_def
        zero_volume_entries_def price_point_def eval_nat_numeral)

section \<open>Claims\<close>

subsection \<open>C1\<close>

text \<open>
  C1 (amended). Starting from an empty store, after the five volume-bearing observations
  of the basic scenario are inserted for SOL/USDC with current timestamps (all within
  \<^verbatim>\<open>maxAge\<close> of each other and within the VWAP window), \<^verbatim>\<open>calculateVWAP\<close>
  succeeds and returns the price \<open>958459 / 5400\<close>, which is 177.4924 within 0.0002,
  with 5 inputs used, 0 outliers and total volume 5400.
\<close>

theorem basic_vwap_amended:
  assumes "t1 \<le> t2" "t2 \<le> t3" "t3 \<le> t4" "t4 \<le> t5"
    and "t5 \<le> t1 + 300000" "now \<le> t1 + 3600000"
  shows "\<exists>r. fst (calculateVWAP now ''SOL/USDC'' None (basic_vwap_store t1 t2 t3 t4 t5)) = Inr r
             \<and> vwap r = 958459 / 5400
             \<and> \<bar>vwap r - 177.4924\<bar> \<le> 0.0002
             \<and> dataPoints r = 5 \<and> outliers r = 0 \<and> totalVolume r = 5400"
  by (simp add: basic_vwap_run [OF assms])

theorem basic_vwap_amended_witness:
  "(1000::real) \<le> 1001 \<and> (1001::real) \<le> 1002 \<and> (1002::real) \<le> 1003 \<and> (1003::real) \<le> 1004
   \<and> (1004::real) \<le> 1000 + 300000 \<and> (1005::real) \<le> 1000 + 3600000
   \<and> (\<exists>r. fst (calculateVWAP 1005 ''SOL/USDC'' None (basic_vwap_store 1000 1001 1002 1003 1004)) = Inr r
             \<and> vwap r = 958459 / 5400
             \<and> \<bar>vwap r - 177.4924\<bar> \<le> 0.0002
             \<and> dataPoints r = 5 \<and> outliers r = 0 \<and> totalVolume r = 5400)"
  using basic_vwap_amended [of 1000 1001 1002 1003 1004 1005] by simp

text \<open>
  C1, as the claim states it.
  The price stated in the claim, 177.4826 within 0.0002, is not what the five
  observations give: the volume-weighted sum is 958459 and the total volume 5400.
\<close>

theorem basic_vwap_counterexample:
  "\<not> (case fst (calculateVWAP 1005 ''SOL/USDC'' None (basic_vwap_store 1000 1001 1002 1003 1004)) of
         Inl e \<Rightarrow> False
       | Inr r \<Rightarrow> \<bar>vwap r - 177.4826\<bar> \<le> 0.0002 \<and> dataPoints r = 5 \<and> outliers r = 0
                   \<and> totalVolume r = 5400)"
  by (simp add: basic_vwap_run)

subsection \<open>C2\<close>

text \<open>
  C2 (amended). The volume sequence holds only observations that carry a volume, and an
  insert preserves this; no floor is applied at insert, so an observation with a volume
  (also a positive one below \<^verbatim>\<open>minVolume\<close>) that is not purged by age becomes the
  last entry of the volume sequence. The floor is applied when \<^verbatim>\<open>calculateVWAP\<close>
  reads the sequence: every successful result of \<^verbatim>\<open>calculateVWAP\<close> is computed from
  a non-empty sub-list of the pair's volume sequence all of whose entries have a volume of
  at least \<^verbatim>\<open>minVolume\<close>; the number of inputs used is its length, the total
  volume the sum of its volumes, and the price its volume-weighted mean.
\<close>

theorem volume_floor_applied_at_read:
  assumes "paired s P" "normalizePriceData s now obs = Inr nd"
    and "\<forall>d\<in>set (volumes_of s P). volume d \<noteq> None"
  shows "(\<forall>d\<in>set (volumes_of (addPriceData now P obs s) P). volume d \<noteq> None)
       \<and> (volume nd \<noteq> None \<and> now - timestamp nd \<le> maxAge (config s) \<and> 0 < maxHistorySize (config s)
            \<longrightarrow> volumes_of (addPriceData now P obs s) P \<noteq> []
                \<and> last (volumes_of (addPriceData now P obs s) P) = volume_entry nd)
       \<and> (\<forall>r. fst (calculateVWAP now' P' window s') = Inr r \<longrightarrow>
              (\<exists>clean. clean \<noteq> []
                 \<and> subseq clean (volumes_of s' P')
                 \<and> (\<forall>d\<in>set clean. \<exists>v. volume d = Some v \<and> minVolume (config s') \<le> v)
                 \<and> dataPoints r = length clean
                 \<and> totalVolume r = sum_list (map spec_volume clean)
                 \<and> vwap r = sum_list (map (\<lambda>d. price d * spec_volume d) clean)
                               / sum_list (map spec_volume clean)))"
proof -
  let ?new = "if volume nd \<noteq> None then volumes_of s P @ [volume_entry nd] else volumes_of s P"
  have v: "volumes_of (addPriceData now P obs s) P = cleanup_array (config s) now ?new"
    using assms by (simp add: volumes_of_addPriceData)
  have a: "\<forall>d\<in>set ?new. volume d \<noteq> None"
    using assms(3) by (auto simp: volume_entry_def)
  have 1: "\<forall>d\<in>set (volumes_of (addPriceData now P obs s) P). volume d \<noteq> None"
    unfolding v using a cleanup_array_set [of "config s" now ?new] by blast
  have 2: "volume nd \<noteq> None \<and> now - timestamp nd \<le> maxAge (config s) \<and> 0 < maxHistorySize (config s)
            \<longrightarrow> volumes_of (addPriceData now P obs s) P \<noteq> []
                \<and> last (volumes_of (addPriceData now P obs s) P) = volume_entry nd"
    unfolding v
    using cleanup_array_last [of now "volume_entry nd" "config s" "volumes_of s P"]
    by (simp add: volume_entry_def)
  have 3: "\<forall>r. fst (calculateVWAP now' P' window s') = Inr r \<longrightarrow>
              (\<exists>clean. clean \<noteq> []
                 \<and> subseq clean (volumes_of s' P')
                 \<and> (\<forall>d\<in>set clean. \<exists>v. volume d = Some v \<and> minVolume (config s') \<le> v)
                 \<and> dataPoints r = length clean
                 \<and> totalVolume r = sum_list (map spec_volume clean)
                 \<and> vwap r = sum_list (map (\<lambda>d. price d * spec_volume d) clean)
                               / sum_list (map spec_volume clean))"
    using calculateVWAP_floor by blast
  show ?thesis using 1 2 3 by blast
qed

theorem volume_floor_applied_at_read_witness:
  "paired (constructor no_config) ''SOL/USDC''
   \<and> normalizePriceData (constructor no_config) 1000 low_volume_observation
        = Inr (price_point 177.5 (Some 0.001) 1000 ''low_volume1'' 0.5)
   \<and> volumes_of (constructor no_config) ''SOL/USDC'' = []
   \<and> last (volumes_of (addPriceData 1000 ''SOL/USDC'' low_volume_observation (constructor no_config))
              ''SOL/USDC'') = volume_point 177.5 0.001 1000 ''low_volume1''
   \<and> volumes_of volume_filter_store ''SOL/USDC'' =
        [volume_point 177.50 0.001 1000 ''low_volume1'', volume_point 177.45 1500 1000 ''binance'',
         volume_point 177.55 0.005 1000 ''low_volume2'', volume_point 177.48 1200 1000 ''kraken'',
         volume_point 177.52 900 1000 ''huobi'']
   \<and> fst (calculateVWAP 2000 ''SOL/USDC'' None volume_filter_store) =
        Inr \<lparr> dataPoints = 3, outliers = 0, timeWindow = 3600000, calculatedAt = 2000,
              sources = [''binance'', ''kraken'', ''huobi''],
              confidence = NaN, minPrice = 177.45, maxPrice = 177.52,
              vwap = 638919 / 3600, totalVolume = 3600, avgVolume = 1200 \<rparr>
   \<and> (\<exists>clean. clean \<noteq> []
          \<and> subseq clean (volumes_of volume_filter_store ''SOL/USDC'')
          \<and> (\<forall>d\<in>set clean. \<exists>v. volume d = Some v \<and> minVolume (config volume_filter_store) \<le> v)
          \<and> length clean = 3
          \<and> sum_list (map spec_volume clean) = 3600
          \<and> sum_list (map (\<lambda>d. price d * spec_volume d) clean) / sum_list (map spec_volume clean)
               = 638919 / 3600)"
proof -
  let ?nd = "price_point 177.5 (Some 0.001) 1000 ''low_volume1'' 0.5"
  let ?R = "\<lparr> dataPoints = 3, outliers = 0, timeWindow = 3600000, calculatedAt = 2000,
              sources = [''binance'', ''kraken'', ''huobi''],
              confidence = NaN, minPrice = 177.45, maxPrice = 177.52,
              vwap = 638919 / 3600, totalVolume = 3600, avgVolume = 1200 \<rparr> :: vwap_result"
  have e: "\<forall>d\<in>set (volumes_of (constructor no_config) ''SOL/USDC''). volume d \<noteq> None"
    by simp
  note t = volume_floor_applied_at_read
             [where P = "''SOL/USDC''" and now' = 2000 and P' = "''SOL/USDC''" and window = None
                and s' = volume_filter_store,
              OF paired_constructor normalize_low_volume e]
  have c: "volume ?nd \<noteq> None" "1000 - timestamp ?nd \<le> maxAge (config (constructor no_config))"
     "0 < maxHistorySize (config (constructor no_config))"
    by (simp_all add: price_point_def config_default)
  from t c
  have l: "last (volumes_of (addPriceData 1000 ''SOL/USDC'' low_volume_observation (constructor no_config))
              ''SOL/USDC'') = volume_entry ?nd"
    by blast
  have ve: "volume_entry ?nd = volume_point 177.5 0.001 1000 ''low_volume1''"
    by (simp add: volume_entry_def volume_point_def price_point_def)
  from t volume_filter_run
  have "\<exists>clean. clean \<noteq> []
          \<and> subseq clean (volumes_of volume_filter_store ''SOL/USDC'')
          \<and> (\<forall>d\<in>set clean. \<exists>v. volume d = Some v \<and> minVolume (config volume_filter_store) \<le> v)
          \<and> dataPoints ?R = length clean
          \<and> totalVolume ?R = sum_list (map spec_volume clean)
          \<and> vwap ?R = sum_list (map (\<lambda>d. price d * spec_volume d) clean)
                               / sum_list (map spec_volume clean)"
    by blast
  then have ex: "\<exists>clean. clean \<noteq> []
          \<and> subseq clean (volumes_of volume_filter_store ''SOL/USDC'')
          \<and> (\<forall>d\<in>set clean. \<exists>v. volume d = Some v \<and> minVolume (config volume_filter_store) \<le> v)
          \<and> length clean = 3
          \<and> sum_list (map spec_volume clean) = 3600
          \<and> sum_list (map (\<lambda>d. price d * spec_volume d) clean) / sum_list (map spec_volume clean)
               = 638919 / 3600"
    by simp
  have empty: "volumes_of (constructor no_config) ''SOL/USDC'' = []" by simp
  show ?thesis
    using paired_constructor [of no_config "''SOL/USDC''"] normalize_low_volume empty
      l [unfolded ve] volume_filter_volumes volume_filter_run ex
    by blast
qed

text \<open>
  C2, as the claim states it.
  The insert of an observation with volume 0.001, below the default floor 0.01, adds an
  entry to the volume sequence.
\<close>

theorem low_volume_counterexample:
  "volumeHistory (addPriceData 1000 ''SOL/USDC'' low_volume_observation (constructor no_config))
       ''SOL/USDC'' = Some [volume_point 177.5 0.001 1000 ''low_volume1'']
   \<and> 0 < (0.001 :: real)
   \<and> (0.001 :: real) < minVolume (config (constructor no_config))"
  by (simp add: low_volume_observation_def addPriceData_ok [OF normalize_observation]
        paired_constructor config_default cleanup_array_def or_default_def
        volume_point_def volume_entry_def)

subsection \<open>C3\<close>

text \<open>
  C3 (amended). When the outlier-filtered snapshot of a pair is not empty and all its
  observations share one timestamp \<open>t\<close> (their weights being non-zero), every combined
  weight but the last is zero and the last is \<open>(now - t) * weight\<close>:
  \<^verbatim>\<open>calculateTWAP\<close> fails with \<open>ZeroWeight\<close> when \<open>t = now\<close>, and otherwise (in
  particular for a past timestamp) it succeeds and returns the price of the last
  observation.
\<close>

theorem twap_single_timestamp:
  assumes "history_of s token \<noteq> []"
    and "relevant = twap_relevantData now (or_default window (twapWindow (config s))) (history_of s token)"
    and "minDataPoints (config s) \<le> length relevant"
    and "clean = fst (removeOutliers relevant s)" "clean \<noteq> []"
    and "\<forall>d\<in>set clean. timestamp d = t"
    and "\<forall>d\<in>set clean. weight d \<noteq> None \<and> weight d \<noteq> Some 0"
  shows "(\<forall>i. Suc i < length clean \<longrightarrow> spec_combinedWeight now clean i = 0)
       \<and> (t = now \<longrightarrow> fst (calculateTWAP now token window s) = Inl ZeroWeight)
       \<and> (t \<noteq> now \<longrightarrow>
            (\<exists>r. fst (calculateTWAP now token window s) = Inr r \<and> twap r = price (last clean)))"
proof -
  have w: "\<forall>d\<in>set clean. weight d \<noteq> None"
    using assms(7) by auto
  have "last clean \<in> set clean" using assms(5) by simp
  then have lw: "spec_sourceWeight (last clean) \<noteq> 0"
    using assms(7) by (auto simp: spec_sourceWeight_def split: option.splits)
  note sums = same_timestamp_sums [OF assms(6,5), of now]
  have 1: "\<forall>i. Suc i < length clean \<longrightarrow> spec_combinedWeight now clean i = 0"
    using same_timestamp_weight [OF assms(6), of _ now] by auto
  have 2: "t = now \<longrightarrow> fst (calculateTWAP now token window s) = Inl ZeroWeight"
    by (simp add: calculateTWAP_clean [OF assms(1,2,3,4,5) w] sums)
  have 3: "t \<noteq> now \<longrightarrow>
            (\<exists>r. fst (calculateTWAP now token window s) = Inr r \<and> twap r = price (last clean))"
    using lw by (simp add: calculateTWAP_clean [OF assms(1,2,3,4,5) w] sums spec_twap_def)
  show ?thesis using 1 2 3 by blast
qed

theorem twap_single_timestamp_witness:
  "history_of (twap_store 1000 1000 1000 1000 1000 1000) ''SOL/USDC''
      = twap_entries 1000 1000 1000 1000 1000
   \<and> map timestamp (twap_entries 1000 1000 1000 1000 1000) = [1000, 1000, 1000, 1000, 1000]
   \<and> map weight (twap_entries 1000 1000 1000 1000 1000)
      = [Some 1, Some 1, Some 0.9, Some 0.5, Some 0.5]
   \<and> fst (removeOutliers (twap_entries 1000 1000 1000 1000 1000)
             (twap_store 1000 1000 1000 1000 1000 1000))
      = twap_entries 1000 1000 1000 1000 1000
   \<and> fst (calculateTWAP 1000 ''SOL/USDC'' None (twap_store 1000 1000 1000 1000 1000 1000))
      = Inl ZeroWeight
   \<and> (\<exists>r. fst (calculateTWAP 2000 ''SOL/USDC'' None (twap_store 1000 1000 1000 1000 1000 1000))
              = Inr r
          \<and> twap r = 177.55)"
proof -
  let ?s = "twap_store 1000 1000 1000 1000 1000 1000"
  let ?es = "twap_entries 1000 1000 1000 1000 1000"
  note c = twap_store_clean [of 1000 1000 1000 1000 1000 1000 2000 None, simplified or_default_def, simplified]
  note c' = twap_store_clean [of 1000 1000 1000 1000 1000 1000 1000 None, simplified or_default_def, simplified]
  have h: "history_of ?s ''SOL/USDC'' \<noteq> []"
    using c(1) twap_entries_facts(1) by simp
  have r: "?es = twap_relevantData 2000 (or_default None (twapWindow (config ?s))) (history_of ?s ''SOL/USDC'')"
    using c(2) by (simp add: or_default_def)
  have r': "?es = twap_relevantData 1000 (or_default None (twapWindow (config ?s))) (history_of ?s ''SOL/USDC'')"
    using c'(2) by (simp add: or_default_def)
  have m: "minDataPoints (config ?s) \<le> length ?es"
    by (simp add: twap_store_config config_default twap_entries_facts)
  have cl: "?es = fst (removeOutliers ?es ?s)"
    using c(3) by simp
  note late = twap_single_timestamp [OF h r m cl twap_entries_facts(1)
                  twap_entries_facts(6) [of 1000] twap_entries_facts(4)]
  note same = twap_single_timestamp [OF h r' m cl twap_entries_facts(1)
                  twap_entries_facts(6) [of 1000] twap_entries_facts(4)]
  have ne: "(1000::real) \<noteq> 2000" by simp
  from late ne have a: "\<exists>r. fst (calculateTWAP 2000 ''SOL/USDC'' None ?s) = Inr r
          \<and> twap r = price (last ?es)"
    by blast
  from same have b: "fst (calculateTWAP 1000 ''SOL/USDC'' None ?s) = Inl ZeroWeight"
    by blast
  have p: "price (last ?es) = 177.55"
    by (simp add: twap_entries_facts(3) price_point_def)
  have mt: "map timestamp ?es = [1000, 1000, 1000, 1000, 1000]"
    by (simp add: twap_entries_def price_point_def)
  have mw: "map weight ?es = [Some 1, Some 1, Some 0.9, Some 0.5, Some 0.5]"
    by (simp add: twap_entries_def price_point_def)
  show ?thesis
    using c(1) mt mw cl [symmetric] b a unfolding p by blast
qed

text \<open>
  C3, as the claim states it.
  Five observations from distinct sources at the same past timestamp 1000, TWAP computed
  at the instant 2000: the result is the price 177.55 of the last observation, not the
  error \<open>ZeroWeight\<close>.
\<close>

theorem same_timestamp_counterexample:
  "map_sum id twap
     (fst (calculateTWAP 2000 ''SOL/USDC'' None (twap_store 1000 1000 1000 1000 1000 1000)))
     = Inr 177.55
   \<and> fst (calculateTWAP 2000 ''SOL/USDC'' None (twap_store 1000 1000 1000 1000 1000 1000))
       \<noteq> Inl ZeroWeight"
  by (simp add: same_time_run)

subsection \<open>C4\<close>

text \<open>
  C4. For a pair whose window holds at least \<^verbatim>\<open>minDataPoints\<close> observations, whose
  outlier-filtered snapshot \<open>clean\<close> is not empty and whose combined weights do not sum
  to zero, \<open>clean\<close> is sorted ascending by timestamp and \<^verbatim>\<open>calculateTWAP\<close> returns
  the sum of \<open>price i * combinedWeight i\<close> divided by the sum of \<open>combinedWeight i\<close>,
  where the combined weight of an observation is its source weight times the time to the
  next observation, and times \<open>now - t\<close> for the last one; of two adjacent observations
  with equal timestamps the earlier has time weight 0 and combined weight 0.
\<close>

theorem twap_formula:
  assumes "history_of s token \<noteq> []"
    and "\<forall>d\<in>set (history_of s token). weight d \<noteq> None"
    and "relevant = twap_relevantData now (or_default window (twapWindow (config s))) (history_of s token)"
    and "minDataPoints (config s) \<le> length relevant"
    and "clean = fst (removeOutliers relevant s)" "clean \<noteq> []"
    and "(\<Sum>i<length clean. spec_combinedWeight now clean i) \<noteq> 0"
  shows "sorted (map timestamp clean)
       \<and> (\<exists>r. fst (calculateTWAP now token window s) = Inr r
               \<and> dataPoints r = length clean
               \<and> twap r = (\<Sum>i<length clean. price (clean ! i) * spec_combinedWeight now clean i)
                            / (\<Sum>i<length clean. spec_combinedWeight now clean i))
       \<and> (\<forall>i. Suc i < length clean \<and> timestamp (clean ! i) = timestamp (clean ! Suc i) \<longrightarrow>
              spec_timeWeight now clean i = 0 \<and> spec_combinedWeight now clean i = 0)"
proof -
  have w: "\<forall>d\<in>set clean. weight d \<noteq> None"
    unfolding assms(5)
    using removeOutliers_weights [of relevant s] twap_relevantData_set assms(2,3) by blast
  have srt: "sorted (map timestamp clean)"
    unfolding assms(5) assms(3) by (rule twap_clean_sorted)
  have run: "\<exists>r. fst (calculateTWAP now token window s) = Inr r
               \<and> dataPoints r = length clean
               \<and> twap r = (\<Sum>i<length clean. price (clean ! i) * spec_combinedWeight now clean i)
                            / (\<Sum>i<length clean. spec_combinedWeight now clean i)"
    using assms(7)
    by (simp add: calculateTWAP_clean [OF assms(1,3,4,5,6) w] spec_twap_def)
  have z: "\<forall>i. Suc i < length clean \<and> timestamp (clean ! i) = timestamp (clean ! Suc i) \<longrightarrow>
              spec_timeWeight now clean i = 0 \<and> spec_combinedWeight now clean i = 0"
    by (simp add: spec_combinedWeight_def spec_timeWeight_def)
  show ?thesis using srt run z by blast
qed

theorem twap_formula_witness:
  "history_of (twap_store 700000 760000 820000 880000 940000 1000000) ''SOL/USDC''
      = twap_entries 700000 760000 820000 880000 940000
   \<and> map weight (twap_entries 700000 760000 820000 880000 940000)
      = [Some 1, Some 1, Some 0.9, Some 0.5, Some 0.5]
   \<and> twap_relevantData 1000000
        (or_default (Some 600000)
           (twapWindow (config (twap_store 700000 760000 820000 880000 940000 1000000))))
        (twap_entries 700000 760000 820000 880000 940000)
      = twap_entries 700000 760000 820000 880000 940000
   \<and> minDataPoints (config (twap_store 700000 760000 820000 880000 940000 1000000)) \<le> 5
   \<and> fst (removeOutliers (twap_entries 700000 760000 820000 880000 940000)
             (twap_store 700000 760000 820000 880000 940000 1000000))
      = twap_entries 700000 760000 820000 880000 940000
   \<and> (\<Sum>i<length (twap_entries 700000 760000 820000 880000 940000).
         spec_combinedWeight 1000000 (twap_entries 700000 760000 820000 880000 940000) i) = 234000
   \<and> (\<exists>r. fst (calculateTWAP 1000000 ''SOL/USDC'' (Some 600000)
                  (twap_store 700000 760000 820000 880000 940000 1000000)) = Inr r
          \<and> dataPoints r = 5 \<and> twap r = 41545800 / 234000)"
proof -
  let ?s = "twap_store 700000 760000 820000 880000 940000 1000000"
  let ?es = "twap_entries 700000 760000 820000 880000 940000"
  note c = twap_store_clean [of 700000 760000 820000 880000 940000 1000000 1000000 "Some 600000",
              simplified or_default_def, simplified]
  have h: "history_of ?s ''SOL/USDC'' \<noteq> []"
    using c(1) twap_entries_facts(1) by simp
  have hw: "\<forall>d\<in>set (history_of ?s ''SOL/USDC''). weight d \<noteq> None"
    unfolding c(1) by (rule twap_entries_facts(5))
  have r: "?es = twap_relevantData 1000000 (or_default (Some 600000) (twapWindow (config ?s)))
                   (history_of ?s ''SOL/USDC'')"
    using c(2) by (simp add: or_default_def)
  have m: "minDataPoints (config ?s) \<le> length ?es"
    by (simp add: twap_store_config config_default twap_entries_facts)
  have cl: "?es = fst (removeOutliers ?es ?s)"
    using c(3) by simp
  have nz: "(\<Sum>i<length ?es. spec_combinedWeight 1000000 ?es i) \<noteq> 0"
    by (simp add: basic_twap_sums)
  note t = twap_formula [OF h hw r m cl twap_entries_facts(1) nz]
  from t [unfolded basic_twap_sums]
  have run: "\<exists>r. fst (calculateTWAP 1000000 ''SOL/USDC'' (Some 600000) ?s) = Inr r
          \<and> dataPoints r = 5 \<and> twap r = 41545800 / 234000"
    unfolding twap_entries_facts(2) by blast
  have mw: "map weight ?es = [Some 1, Some 1, Some 0.9, Some 0.5, Some 0.5]"
    by (simp add: twap_entries_def price_point_def)
  have m5: "minDataPoints (config ?s) \<le> 5"
    using m by (simp add: twap_entries_facts(2))
  show ?thesis
    using c(1) mw r [symmetric, unfolded c(1)] m5 cl [symmetric] basic_twap_sums(1) run
    by blast
qed

subsection \<open>C5\<close>

text \<open>
  C5 (amended). For every pair \<open>P\<close> and every observation that normalizes to \<open>nd\<close>:
  immediately after the insert, no stored observation of \<open>P\<close> is older than
  \<open>now - maxAge\<close>, the history of \<open>P\<close> holds at most \<^verbatim>\<open>maxHistorySize\<close>
  observations, namely the last ones of the age-filtered sequence (the oldest are evicted
  first), and, when the observation itself is not older than \<open>now - maxAge\<close> (and the cap
  is positive), the most recent stored observation is \<open>nd\<close>.
\<close>

theorem insert_invariants:
  assumes "paired s P" "normalizePriceData s now obs = Inr nd"
  shows "(now - timestamp nd \<le> maxAge (config s) \<and> 0 < maxHistorySize (config s) \<longrightarrow>
            history_of (addPriceData now P obs s) P \<noteq> []
            \<and> last (history_of (addPriceData now P obs s) P) = nd)
       \<and> (\<forall>d\<in>set (history_of (addPriceData now P obs s) P). now - timestamp d \<le> maxAge (config s))
       \<and> length (history_of (addPriceData now P obs s) P) \<le> maxHistorySize (config s)
       \<and> history_of (addPriceData now P obs s) P =
           drop (length (filter (\<lambda>d. now - timestamp d \<le> maxAge (config s)) (history_of s P @ [nd]))
                   - maxHistorySize (config s))
                (filter (\<lambda>d. now - timestamp d \<le> maxAge (config s)) (history_of s P @ [nd]))"
proof -
  have h: "history_of (addPriceData now P obs s) P
            = cleanup_array (config s) now (history_of s P @ [nd])"
    using assms by (simp add: history_of_addPriceData)
  show ?thesis
    unfolding h
    by (intro conjI impI ballI cleanup_array_length_le cleanup_array_drop)
       (simp_all add: cleanup_array_last cleanup_array_fresh)
qed

theorem insert_invariants_witness:
  "paired two_pairs ''SOL/USDC''
   \<and> normalizePriceData two_pairs 2000 (observation 177.6 None None ''binance'')
        = Inr (price_point 177.6 None 2000 ''binance'' 1)
   \<and> 2000 - timestamp (price_point 177.6 None 2000 ''binance'' 1) \<le> maxAge (config two_pairs)
   \<and> 0 < maxHistorySize (config two_pairs)
   \<and> last (history_of (addPriceData 2000 ''SOL/USDC'' (observation 177.6 None None ''binance'') two_pairs)
              ''SOL/USDC'') = price_point 177.6 None 2000 ''binance'' 1
   \<and> length (history_of (addPriceData 2000 ''SOL/USDC'' (observation 177.6 None None ''binance'') two_pairs)
              ''SOL/USDC'') \<le> 1000"
proof -
  have n: "normalizePriceData two_pairs 2000 (observation 177.6 None None ''binance'')
        = Inr (price_point 177.6 None 2000 ''binance'' 1)"
    by (simp add: normalize_observation price_point_def or_default_def two_pairs_def
          weight_default)
  have c: "2000 - timestamp (price_point 177.6 None 2000 ''binance'' 1) \<le> maxAge (config two_pairs)"
       "0 < maxHistorySize (config two_pairs)" "maxHistorySize (config two_pairs) = 1000"
    by (simp_all add: config_two_pairs config_default price_point_def)
  note inv = insert_invariants [OF paired_two_pairs n, of "''SOL/USDC''"]
  from inv c(1,2)
  have l: "last (history_of (addPriceData 2000 ''SOL/USDC'' (observation 177.6 None None ''binance'') two_pairs)
              ''SOL/USDC'') = price_point 177.6 None 2000 ''binance'' 1"
    by blast
  from inv
  have m: "length (history_of (addPriceData 2000 ''SOL/USDC'' (observation 177.6 None None ''binance'') two_pairs)
              ''SOL/USDC'') \<le> maxHistorySize (config two_pairs)"
    by blast
  show ?thesis
    using paired_two_pairs n c(1,2) l m unfolding c(3) by blast
qed

text \<open>
  C5, as the claim states it.
  An observation that carries a timestamp older than \<open>now - maxAge\<close> is purged by the
  very insert that stores it: after the insert the history of the pair is empty, so its
  most recent observation is not the one inserted.
\<close>

theorem stale_insert_counterexample:
  "normalizePriceData (constructor no_config) 500000 stale_observation
      = Inr (price_point 177.5 (Some 1000) 100000 ''okx'' 1)
   \<and> priceHistory (addPriceData 500000 ''SOL/USDC'' stale_observation (constructor no_config))
        ''SOL/USDC'' = Some []"
  by (simp add: stale_observation_def addPriceData_ok [OF normalize_observation]
        normalize_observation paired_constructor config_default cleanup_array_def or_default_def
        price_point_def weight_default)

subsection \<open>C6\<close>

text \<open>
  C6. The reported confidence of a successful aggregation is the spec's formula over the
  surviving observations and lies between 0 and 1. This holds for TWAP and for the
  weighted average, whose observations carry a weight (\<open>calculateConfidence_spec\<close>,
  \<open>calculateConfidence_range\<close>). It fails for VWAP: the entries of the volume history
  have no \<^verbatim>\<open>weight\<close> property, so the mean source weight, and with it the
  confidence of every successful VWAP, is NaN (\<open>calculateVWAP_confidence_NaN\<close>).
  Evaluated here on the basic VWAP scenario.
\<close>

theorem vwap_confidence_NaN:
  "map_sum id confidence
     (fst (calculateVWAP 1005 ''SOL/USDC'' None (basic_vwap_store 1000 1001 1002 1003 1004)))
   = Inr NaN"
  by (simp add: basic_vwap_run)

subsection \<open>C7\<close>

text \<open>
  C7 (amended). Each of the two outlier filters only removes elements: its result is a
  sub-list of its input, in the input's order. A second application with the same
  threshold or multiplier removes nothing further when the survivors of the first are
  fewer than 3 or have zero price standard deviation (z-score), respectively are fewer
  than 4 (IQR); on longer survivor lists it can remove more.
\<close>

theorem outlier_filters_shrink:
  "subseq (removeOutliersZScore c data (map price data)) data
   \<and> subseq (removeOutliersIQR c data) data
   \<and> (length (removeOutliersZScore c data (map price data)) < 3
        \<or> standardDeviation (map price (removeOutliersZScore c data (map price data))) = 0
      \<longrightarrow> removeOutliersZScore c (removeOutliersZScore c data (map price data))
             (map price (removeOutliersZScore c data (map price data)))
           = removeOutliersZScore c data (map price data))
   \<and> (length (removeOutliersIQR c data) < 4
      \<longrightarrow> removeOutliersIQR c (removeOutliersIQR c data) = removeOutliersIQR c data)"
proof -
  have z: "length xs < 3 \<or> standardDeviation (map price xs) = 0
           \<longrightarrow> removeOutliersZScore c xs (map price xs) = xs" for xs
    by (auto simp: removeOutliersZScore_def Let_def)
  have i: "length xs < 4 \<longrightarrow> removeOutliersIQR c xs = xs" for xs
    by (simp add: removeOutliersIQR_def)
  show ?thesis
    using z [of "removeOutliersZScore c data (map price data)"] i [of "removeOutliersIQR c data"]
      removeOutliersZScore_subseq [of c data] removeOutliersIQR_subseq [of c data]
    by blast
qed

theorem outlier_filters_shrink_witness:
  "standardDeviation (map price (map flat_point [100, 100, 100, 100])) = 0
   \<and> removeOutliersZScore (config (constructor no_config))
        (removeOutliersZScore (config (constructor no_config)) (map flat_point [100, 100, 100, 100])
           (map price (map flat_point [100, 100, 100, 100])))
        (map price (removeOutliersZScore (config (constructor no_config))
           (map flat_point [100, 100, 100, 100]) (map price (map flat_point [100, 100, 100, 100]))))
      = map flat_point [100, 100, 100, 100]
   \<and> length (removeOutliersIQR (config (constructor no_config)) (map flat_point [100, 101, 104])) < 4
   \<and> removeOutliersIQR (config (constructor no_config))
        (removeOutliersIQR (config (constructor no_config)) (map flat_point [100, 101, 104]))
      = map flat_point [100, 101, 104]
   \<and> subseq (removeOutliersIQR (config (constructor no_config)) iqr_example) iqr_example"
proof -
  let ?c = "config (constructor no_config)"
  let ?flat = "map flat_point [100, 100, 100, 100]"
  let ?short = "map flat_point [100, 101, 104]"
  have sd: "standardDeviation (map price ?flat) = 0"
    by (simp add: standardDeviation_def variance_def mean_def)
  have sd': "standardDeviation (map price (removeOutliersZScore ?c ?flat (map price ?flat))) = 0"
    unfolding flat_zscore by (rule sd)
  have len: "length (removeOutliersIQR ?c ?short) < 4"
    unfolding short_iqr by simp
  from outlier_filters_shrink [of ?c ?flat] sd'
  have a: "removeOutliersZScore ?c (removeOutliersZScore ?c ?flat (map price ?flat))
             (map price (removeOutliersZScore ?c ?flat (map price ?flat)))
           = removeOutliersZScore ?c ?flat (map price ?flat)"
    by blast
  from outlier_filters_shrink [of ?c ?short] len
  have b: "removeOutliersIQR ?c (removeOutliersIQR ?c ?short) = removeOutliersIQR ?c ?short"
    by blast
  from outlier_filters_shrink [of ?c iqr_example]
  have s: "subseq (removeOutliersIQR ?c iqr_example) iqr_example"
    by blast
  note a' = trans [OF a flat_zscore [of ?c]]
  note b' = trans [OF b short_iqr [of ?c]]
  show ?thesis
    using sd a' len b' s by blast
qed

text \<open>
  C7, as the claim states it.
  Neither filter is idempotent. Ten prices 100, one 101 and one 1100: the z-score filter
  removes 1100, and on the survivors, whose mean and deviation are now small, it removes
  101. Four prices 100, one 101 and one 104: the IQR filter removes 104, and on the
  survivors, whose quartiles now coincide, it removes 101.
\<close>

theorem filters_not_idempotent_counterexample:
  "removeOutliersZScore (config (constructor no_config))
      (removeOutliersZScore (config (constructor no_config)) zscore_example (map price zscore_example))
      (map price
        (removeOutliersZScore (config (constructor no_config)) zscore_example (map price zscore_example)))
     \<noteq> removeOutliersZScore (config (constructor no_config)) zscore_example (map price zscore_example)
   \<and> removeOutliersIQR (config (constructor no_config))
        (removeOutliersIQR (config (constructor no_config)) iqr_example)
     \<noteq> removeOutliersIQR (config (constructor no_config)) iqr_example"
  unfolding zscore_first_pass zscore_second_pass iqr_first_pass iqr_second_pass
  by simp

subsection \<open>C8\<close>

text \<open>
  C8. \<^verbatim>\<open>addPriceData\<close> never passes an exception on: every exit of the try block,
  normal or exceptional, ends in a normal return of the method. When the normalization
  throws (a price or volume that \<^verbatim>\<open>Decimal\<close> cannot parse), the try block is left
  before any write, and the whole service (every price history, every volume history,
  the counters \<^verbatim>\<open>totalPricesProcessed\<close> and \<^verbatim>\<open>lastUpdate\<close>) is unchanged.
\<close>

theorem addPriceData_total_atomic:
  "(case addPriceData_try now token pd s of
      Inl (e, s') \<Rightarrow> addPriceData now token pd s = s'
    | Inr s' \<Rightarrow> addPriceData now token pd s = s')
   \<and> (\<forall>e. normalizePriceData s now pd = Inl e \<longrightarrow>
          addPriceData_try now token pd s = Inl (e, s)
          \<and> addPriceData now token pd s = s
          \<and> priceHistory (addPriceData now token pd s) = priceHistory s
          \<and> volumeHistory (addPriceData now token pd s) = volumeHistory s
          \<and> stats (addPriceData now token pd s) = stats s)"
  by (auto simp: addPriceData_def addPriceData_try_def split: sum.splits prod.splits)

theorem addPriceData_total_atomic_witness:
  "normalizePriceData two_pairs 2000 unparseable = Inl DecimalError
   \<and> addPriceData 2000 ''SOL/USDC'' unparseable two_pairs = two_pairs"
  using addPriceData_total_atomic [of 2000 "''SOL/USDC''" unparseable two_pairs]
  by (simp add: normalizePriceData_def unparseable_def)

subsection \<open>C9\<close>

text \<open>
  C9 (amended). An observation whose volume is the number 0 or absent is normalized to a
  null volume and is not appended to the volume sequence, which the insert only purges:
  every later \<^verbatim>\<open>calculateVWAP\<close> for the pair returns what it returns on the store
  that was only purged. The observation is appended to the price history like any other.
  Unless it is purged by age, \<^verbatim>\<open>calculateTWAP\<close> and
  \<^verbatim>\<open>calculateWeightedAverage\<close> read it: TWAP does not fail for lack of price data,
  the observation is in the snapshot of every window that covers its timestamp, and a TWAP
  over that snapshot returns the time-weighted mean of the snapshot's outlier-filtered
  observations, its inputs used and removed adding up to the snapshot's length; the
  observation is among the last ten, and the weighted average returns the source-weighted
  mean of their outlier-filtered observations.
\<close>

theorem zero_volume_participation:
  assumes "paired s P" "normalizePriceData s now obs = Inr nd"
    and "\<forall>d\<in>set (history_of s P). weight d \<noteq> None"
  shows "(volume_in obs = Undefined \<or> volume_in obs = Num 0 \<longrightarrow>
            volume nd = None
          \<and> volumes_of (addPriceData now P obs s) P = cleanup_array (config s) now (volumes_of s P)
          \<and> fst (calculateVWAP now' P window (addPriceData now P obs s))
              = fst (calculateVWAP now' P window (cleanupOldData now P s)))
       \<and> history_of (addPriceData now P obs s) P
           = cleanup_array (config s) now (history_of s P @ [nd])
       \<and> (now - timestamp nd \<le> maxAge (config s) \<and> 0 < maxHistorySize (config s) \<longrightarrow>
            fst (calculateTWAP now' P window (addPriceData now P obs s)) \<noteq> Inl NoPriceData
          \<and> (now' - or_default window (twapWindow (config s)) \<le> timestamp nd \<longrightarrow>
                nd \<in> set (twap_snapshot now' window (addPriceData now P obs s) P)
              \<and> (minDataPoints (config s)
                     \<le> length (twap_snapshot now' window (addPriceData now P obs s) P)
                  \<and> fst (removeOutliers (twap_snapshot now' window (addPriceData now P obs s) P)
                           (addPriceData now P obs s)) \<noteq> []
                  \<and> (\<Sum>i<length (fst (removeOutliers
                                        (twap_snapshot now' window (addPriceData now P obs s) P)
                                        (addPriceData now P obs s))).
                        spec_combinedWeight now'
                          (fst (removeOutliers (twap_snapshot now' window (addPriceData now P obs s) P)
                                 (addPriceData now P obs s))) i) \<noteq> 0
                  \<longrightarrow> (\<exists>r. fst (calculateTWAP now' P window (addPriceData now P obs s)) = Inr r
                          \<and> dataPoints r + outliers r
                              = length (twap_snapshot now' window (addPriceData now P obs s) P)
                          \<and> twap r = spec_twap now'
                               (fst (removeOutliers
                                      (twap_snapshot now' window (addPriceData now P obs s) P)
                                      (addPriceData now P obs s))))))
          \<and> nd \<in> set (recent_snapshot (addPriceData now P obs s) P)
          \<and> (fst (removeOutliers (recent_snapshot (addPriceData now P obs s) P)
                     (addPriceData now P obs s)) \<noteq> []
              \<longrightarrow> (\<exists>r. fst (calculateWeightedAverage now' P (addPriceData now P obs s)) = Inr r
                      \<and> weightedDataPoints r
                          = length (fst (removeOutliers (recent_snapshot (addPriceData now P obs s) P)
                                          (addPriceData now P obs s)))
                      \<and> weightedPrice r
                          = decimal_div
                              (sum_list (map (\<lambda>d. price d * spec_sourceWeight d)
                                 (fst (removeOutliers (recent_snapshot (addPriceData now P obs s) P)
                                        (addPriceData now P obs s)))))
                              (sum_list (map spec_sourceWeight
                                 (fst (removeOutliers (recent_snapshot (addPriceData now P obs s) P)
                                        (addPriceData now P obs s))))))))"
proof -
  let ?s = "addPriceData now P obs s"
  let ?snap = "twap_snapshot now' window ?s P"
  let ?tclean = "fst (removeOutliers ?snap ?s)"
  let ?recent = "recent_snapshot ?s P"
  let ?wclean = "fst (removeOutliers ?recent ?s)"
  have h: "history_of ?s P = cleanup_array (config s) now (history_of s P @ [nd])"
    using assms(1,2) by (simp add: history_of_addPriceData)
  have hw: "\<forall>d\<in>set (history_of ?s P). weight d \<noteq> None"
    using history_weights_addPriceData [OF assms(1,3)] by blast
  have A: "volume nd = None
          \<and> volumes_of ?s P = cleanup_array (config s) now (volumes_of s P)
          \<and> fst (calculateVWAP now' P window ?s)
              = fst (calculateVWAP now' P window (cleanupOldData now P s))"
    if z: "volume_in obs = Undefined \<or> volume_in obs = Num 0"
  proof -
    have n: "volume nd = None"
      using assms(2) z by (auto simp: normalizePriceData_def split: sum.splits if_splits)
    have v: "volumes_of ?s P = cleanup_array (config s) now (volumes_of s P)"
      using assms(1,2) n by (simp add: volumes_of_addPriceData)
    have "fst (calculateVWAP now' P window ?s)
              = fst (calculateVWAP now' P window (cleanupOldData now P s))"
      by (rule calculateVWAP_cong) (simp_all add: v volumes_of_cleanupOldData)
    then show ?thesis using n v by blast
  qed
  have B: "fst (calculateTWAP now' P window ?s) \<noteq> Inl NoPriceData
          \<and> (now' - or_default window (twapWindow (config s)) \<le> timestamp nd \<longrightarrow>
                nd \<in> set ?snap
              \<and> (minDataPoints (config s) \<le> length ?snap \<and> ?tclean \<noteq> []
                  \<and> (\<Sum>i<length ?tclean. spec_combinedWeight now' ?tclean i) \<noteq> 0
                  \<longrightarrow> (\<exists>r. fst (calculateTWAP now' P window ?s) = Inr r
                          \<and> dataPoints r + outliers r = length ?snap
                          \<and> twap r = spec_twap now' ?tclean)))
          \<and> nd \<in> set ?recent
          \<and> (?wclean \<noteq> []
              \<longrightarrow> (\<exists>r. fst (calculateWeightedAverage now' P ?s) = Inr r
                      \<and> weightedDataPoints r = length ?wclean
                      \<and> weightedPrice r
                          = decimal_div (sum_list (map (\<lambda>d. price d * spec_sourceWeight d) ?wclean))
                              (sum_list (map spec_sourceWeight ?wclean))))"
    if f: "now - timestamp nd \<le> maxAge (config s) \<and> 0 < maxHistorySize (config s)"
  proof -
    have nl: "history_of ?s P \<noteq> [] \<and> last (history_of ?s P) = nd"
      unfolding h using cleanup_array_last [of now nd "config s" "history_of s P"] f by simp
    have ne: "history_of ?s P \<noteq> []" and la: "last (history_of ?s P) = nd"
      using nl by blast+
    have mem: "nd \<in> set (history_of ?s P)"
      using ne la last_in_set by metis
    have 1: "fst (calculateTWAP now' P window ?s) \<noteq> Inl NoPriceData"
      using ne by (rule calculateTWAP_not_empty)
    have 2: "nd \<in> set ?snap"
      if "now' - or_default window (twapWindow (config s)) \<le> timestamp nd"
      using that mem by (simp add: twap_snapshot_def twap_relevantData_def)
    have tw: "\<forall>d\<in>set ?tclean. weight d \<noteq> None"
      using removeOutliers_weights [of ?snap ?s] twap_relevantData_set hw
      unfolding twap_snapshot_def by blast
    have 3: "\<exists>r. fst (calculateTWAP now' P window ?s) = Inr r
                \<and> dataPoints r + outliers r = length ?snap
                \<and> twap r = spec_twap now' ?tclean"
      if c: "minDataPoints (config s) \<le> length ?snap" "?tclean \<noteq> []"
            "(\<Sum>i<length ?tclean. spec_combinedWeight now' ?tclean i) \<noteq> 0"
    proof -
      have m: "minDataPoints (config ?s) \<le> length ?snap" using c(1) by simp
      have le: "length ?tclean \<le> length ?snap"
        using removeOutliers_subseq [of ?snap ?s] by (rule list_emb_length)
      show ?thesis
        using c(3) le
        by (simp add: calculateTWAP_clean [OF ne twap_snapshot_def m refl c(2) tw])
    qed
    have drop_ne: "?recent \<noteq> []" and drop_last: "last ?recent = nd"
    proof -
      have "0 < length (history_of ?s P)" using ne by simp
      then have "length (history_of ?s P) - 10 < length (history_of ?s P)" by arith
      then show "?recent \<noteq> []" "last ?recent = nd"
        using la by (simp_all add: recent_snapshot_def)
    qed
    have 4: "nd \<in> set ?recent"
      using drop_ne drop_last last_in_set by metis
    have rw: "\<forall>d\<in>set ?wclean. weight d \<noteq> None"
    proof -
      have "set ?recent \<subseteq> set (history_of ?s P)"
        unfolding recent_snapshot_def by (rule set_drop_subset)
      then show ?thesis
        using removeOutliers_weights [of ?recent ?s] hw by blast
    qed
    have 5: "\<exists>r. fst (calculateWeightedAverage now' P ?s) = Inr r
                      \<and> weightedDataPoints r = length ?wclean
                      \<and> weightedPrice r
                          = decimal_div (sum_list (map (\<lambda>d. price d * spec_sourceWeight d) ?wclean))
                              (sum_list (map spec_sourceWeight ?wclean))"
      if c: "?wclean \<noteq> []"
      by (simp add: calculateWeightedAverage_clean [OF ne refl c rw])
    show ?thesis using 1 2 3 4 5 by blast
  qed
  show ?thesis using A h B by blast
qed

theorem zero_volume_participation_witness:
  "paired zero_volume_store ''ZERO/VOLUME''
   \<and> normalizePriceData zero_volume_store 1200 third_zero_volume
        = Inr (price_point 102 None 1200 ''test3'' 0.5)
   \<and> volume_in third_zero_volume = Num 0
   \<and> map weight (history_of zero_volume_store ''ZERO/VOLUME'') = [Some 0.5, Some 0.5]
   \<and> history_of (addPriceData 1200 ''ZERO/VOLUME'' third_zero_volume zero_volume_store) ''ZERO/VOLUME''
        = zero_volume_entries
   \<and> volumes_of (addPriceData 1200 ''ZERO/VOLUME'' third_zero_volume zero_volume_store) ''ZERO/VOLUME''
        = []
   \<and> fst (calculateVWAP 2000 ''ZERO/VOLUME'' None
             (addPriceData 1200 ''ZERO/VOLUME'' third_zero_volume zero_volume_store))
        = Inl NoVolumeData
   \<and> (\<exists>r. fst (calculateTWAP 2000 ''ZERO/VOLUME'' None
                  (addPriceData 1200 ''ZERO/VOLUME'' third_zero_volume zero_volume_store)) = Inr r
          \<and> dataPoints r + outliers r = 3
          \<and> twap r = 50850 / 500)
   \<and> (\<exists>r. fst (calculateWeightedAverage 2000 ''ZERO/VOLUME''
                  (addPriceData 1200 ''ZERO/VOLUME'' third_zero_volume zero_volume_store)) = Inr r
          \<and> weightedDataPoints r = 3
          \<and> weightedPrice r = Val 101)"
proof -
  let ?Z = "''ZERO/VOLUME''"
  let ?nd = "price_point 102 None 1200 ''test3'' 0.5"
  let ?s = "addPriceData 1200 ?Z third_zero_volume zero_volume_store"
  have z: "volume_in third_zero_volume = Num 0"
    by (simp add: third_zero_volume_def observation_def)
  have z': "volume_in third_zero_volume = Undefined \<or> volume_in third_zero_volume = Num 0"
    using z by simp
  have mw: "map weight (history_of zero_volume_store ?Z) = [Some 0.5, Some 0.5]"
    by (simp add: history_zero_volume_store price_point_def)
  have hw: "\<forall>d\<in>set (history_of zero_volume_store ?Z). weight d \<noteq> None"
    by (simp add: history_zero_volume_store price_point_def del: not_None_eq)
  note t = zero_volume_participation
             [where P = ?Z and now' = 2000 and window = None,
              OF paired_zero_volume_store normalize_third_zero_volume hw]
  have cfg: "config ?s = config (constructor no_config)"
    by (simp add: config_zero_volume_store)
  have cl: "cleanup_array (config zero_volume_store) 1200 (history_of zero_volume_store ?Z @ [?nd])
              = zero_volume_entries"
    by (simp add: history_zero_volume_store config_zero_volume_store config_default
          cleanup_array_def price_point_def zero_volume_entries_def)
  from t have h: "history_of ?s ?Z = zero_volume_entries"
    unfolding cl by blast
  from t z' have v: "volumes_of ?s ?Z = cleanup_array (config zero_volume_store) 1200
                       (volumes_of zero_volume_store ?Z)"
    by blast
  have v': "volumes_of ?s ?Z = []"
    unfolding v by (simp add: volumes_zero_volume_store)
  have vw: "fst (calculateVWAP 2000 ?Z None ?s) = Inl NoVolumeData"
    by (simp add: calculateVWAP_volumes_of v')
  have fresh: "1200 - timestamp ?nd \<le> maxAge (config zero_volume_store)
               \<and> 0 < maxHistorySize (config zero_volume_store)"
    by (simp add: config_zero_volume_store config_default price_point_def)
  have win: "2000 - or_default None (twapWindow (config zero_volume_store)) \<le> timestamp ?nd"
    by (simp add: config_zero_volume_store config_default price_point_def or_default_def)
  have snap: "twap_snapshot 2000 None ?s ?Z = zero_volume_entries"
    unfolding twap_snapshot_def h
    by (simp add: twap_relevantData_def config_zero_volume_store config_default or_default_def
          zero_volume_entries_def price_point_def)
  have rec: "recent_snapshot ?s ?Z = zero_volume_entries"
    unfolding recent_snapshot_def h by (simp add: zero_volume_entries_def)
  have ro: "fst (removeOutliers zero_volume_entries ?s) = zero_volume_entries"
    by (simp add: zero_volume_outliers [OF cfg])
  have len: "length zero_volume_entries = 3" "zero_volume_entries \<noteq> []"
    by (simp_all add: zero_volume_entries_def)
  have m: "minDataPoints (config zero_volume_store) \<le> length zero_volume_entries"
    by (simp add: config_zero_volume_store config_default len)
  have nz: "(\<Sum>i<length zero_volume_entries. spec_combinedWeight 2000 zero_volume_entries i) \<noteq> 0"
    by (simp add: zero_volume_sums)
  note t' = t [unfolded snap rec ro]
  from t' fresh win m len(2) nz
  have tw: "\<exists>r. fst (calculateTWAP 2000 ?Z None ?s) = Inr r
          \<and> dataPoints r + outliers r = length zero_volume_entries
          \<and> twap r = spec_twap 2000 zero_volume_entries"
    by blast
  from t' fresh len(2)
  have wa: "\<exists>r. fst (calculateWeightedAverage 2000 ?Z ?s) = Inr r
          \<and> weightedDataPoints r = length zero_volume_entries
          \<and> weightedPrice r
              = decimal_div (sum_list (map (\<lambda>d. price d * spec_sourceWeight d) zero_volume_entries))
                  (sum_list (map spec_sourceWeight zero_volume_entries))"
    by blast
  have dd: "decimal_div 151.5 1.5 = Val 101"
    by (simp add: decimal_div_def)
  have tw': "\<exists>r. fst (calculateTWAP 2000 ?Z None ?s) = Inr r
          \<and> dataPoints r + outliers r = 3 \<and> twap r = 50850 / 500"
    using tw unfolding zero_volume_sums len(1) .
  have wa': "\<exists>r. fst (calculateWeightedAverage 2000 ?Z ?s) = Inr r
          \<and> weightedDataPoints r = 3 \<and> weightedPrice r = Val 101"
    using wa unfolding zero_volume_sums len(1) dd .
  show ?thesis
    using paired_zero_volume_store [of ?Z] normalize_third_zero_volume z mw h v' vw tw' wa'
    by blast
qed

text \<open>
  C9, as the claim states it.
  A volume 0 that comes as the string \<^verbatim>\<open>'0'\<close> is truthy: it is normalized to
  the decimal 0, not to null, and the insert appends an entry with volume 0 to the volume
  sequence.
\<close>

theorem string_zero_volume_counterexample:
  "volume_in string_zero_observation = NumericStr 0
   \<and> normalizePriceData (constructor no_config) 1000 string_zero_observation
        = Inr (price_point 100 (Some 0) 1000 ''test1'' 0.5)
   \<and> volumeHistory
        (addPriceData 1000 ''ZERO/VOLUME'' string_zero_observation (constructor no_config))
        ''ZERO/VOLUME'' = Some [volume_point 100 0 1000 ''test1'']"
proof (intro conjI)
  show "volume_in string_zero_observation = NumericStr 0"
    by (simp add: string_zero_observation_def)
  show "normalizePriceData (constructor no_config) 1000 string_zero_observation
        = Inr (price_point 100 (Some 0) 1000 ''test1'' 0.5)"
    by (rule normalize_string_zero)
  show "volumeHistory
        (addPriceData 1000 ''ZERO/VOLUME'' string_zero_observation (constructor no_config))
        ''ZERO/VOLUME'' = Some [volume_point 100 0 1000 ''test1'']"
    by (simp add: addPriceData_ok [OF normalize_string_zero paired_constructor]
          config_default cleanup_array_def price_point_def volume_point_def volume_entry_def)
qed

subsection \<open>C10\<close>

text \<open>
  C10. \<^verbatim>\<open>clearTokenData(P)\<close> deletes the price history and the volume history of
  \<open>P\<close> and nothing else: the histories of every other pair, the statistics counters,
  the configuration and the source weights are unchanged.
\<close>

theorem clearTokenData_frame:
  "priceHistory (clearTokenData P s) P = None
   \<and> volumeHistory (clearTokenData P s) P = None
   \<and> (\<forall>Q. Q \<noteq> P \<longrightarrow>
          priceHistory (clearTokenData P s) Q = priceHistory s Q
          \<and> volumeHistory (clearTokenData P s) Q = volumeHistory s Q)
   \<and> stats (clearTokenData P s) = stats s
   \<and> config (clearTokenData P s) = config s
   \<and> sourceWeights (clearTokenData P s) = sourceWeights s"
  by (simp add: clearTokenData_def)

theorem clearTokenData_frame_witness:
  "''ETH/USDT'' \<noteq> ''SOL/USDC''
   \<and> priceHistory (clearTokenData ''SOL/USDC'' two_pairs) ''SOL/USDC'' = None
   \<and> priceHistory (clearTokenData ''SOL/USDC'' two_pairs) ''ETH/USDT''
       = priceHistory two_pairs ''ETH/USDT''
   \<and> volumeHistory (clearTokenData ''SOL/USDC'' two_pairs) ''ETH/USDT''
       = volumeHistory two_pairs ''ETH/USDT''
   \<and> stats (clearTokenData ''SOL/USDC'' two_pairs) = stats two_pairs"
  using clearTokenData_frame [of "''SOL/USDC''" two_pairs] by simp

end
